theory Spec2Isabelle
  imports Main "HOL-Library.Multiset"
begin

section \<open>Pipeline-run records\<close>

text \<open>
  A pipeline run is a Kubernetes resource. The list views read three things from it:
  \<^verbatim>\<open>metadata.name\<close>, \<^verbatim>\<open>metadata.labels\<close> and \<^verbatim>\<open>status.startTime\<close>. Kubernetes omits
  an empty label map, and the application view reads it as
  \<^verbatim>\<open>plr?.metadata?.labels?.[...]\<close>, so \<open>labels\<close> is optional; \<^verbatim>\<open>status\<close> and
  \<^verbatim>\<open>startTime\<close> are read through \<^verbatim>\<open>?.\<close> and are optional too. An absent field
  (\<^verbatim>\<open>undefined\<close>) is \<open>None\<close>.
\<close>

record ObjectMetadata =
  name :: string
  labels :: "(string \<rightharpoonup> string) option"

record PipelineRunStatus =
  startTime :: "string option"

record PipelineRunKind =
  metadata :: ObjectMetadata
  status :: "PipelineRunStatus option"

text \<open>Reading a property of \<^verbatim>\<open>undefined\<close> throws; the model returns the error as a value.\<close>

datatype js_error = TypeError

section \<open>The type facet: getOptions\<close>

text \<open>
  \<^verbatim>\<open>plr?.metadata.labels[PipelineRunLabel.PIPELINE_TYPE]\<close> (commit tab and snapshot list):
  the index into \<^verbatim>\<open>labels\<close> is not guarded, so a record without a label map throws.
  The label key \<open>K\<close> is a constant of a file that is not among the sources; it is a
  parameter.
\<close>

definition pipelineTypeLabel :: "string \<Rightarrow> PipelineRunKind \<Rightarrow> js_error + string option" where
  "pipelineTypeLabel K plr =
     (case labels (metadata plr) of
        None \<Rightarrow> Inl TypeError
      | Some ls \<Rightarrow> Inr (ls K))"

text \<open>
  \<^verbatim>\<open>plr?.metadata?.labels?.[PipelineRunLabel.PIPELINE_TYPE]\<close> (application view): every
  step is guarded, a missing label map gives \<^verbatim>\<open>undefined\<close>.
\<close>

definition pipelineTypeLabel_guarded :: "string \<Rightarrow> PipelineRunKind \<Rightarrow> string option" where
  "pipelineTypeLabel_guarded K plr =
     (case labels (metadata plr) of
        None \<Rightarrow> None
      | Some ls \<Rightarrow> ls K)"

text \<open>
  \<^verbatim>\<open>new Map<string, number>()\<close> keeps its keys in insertion order, and \<^verbatim>\<open>set\<close> on a key
  that is present keeps the key's place: an association list without repeated keys.
\<close>

type_synonym typeMap = "(string \<times> nat) list"

definition Map_get :: "typeMap \<Rightarrow> string \<Rightarrow> nat option" where
  "Map_get m k = map_of m k"

text \<open>The count a type map holds for a value, zero when the value is not a key.\<close>

definition countIn :: "typeMap \<Rightarrow> string \<Rightarrow> nat" where
  "countIn m t = (case map_of m t of None \<Rightarrow> 0 | Some c \<Rightarrow> c)"

fun Map_set :: "typeMap \<Rightarrow> string \<Rightarrow> nat \<Rightarrow> typeMap" where
  "Map_set [] k v = [(k, v)]"
| "Map_set ((k', v') # m) k v =
     (if k' = k then (k', v) # m else (k', v') # Map_set m k v)"

text \<open>
  The body of the \<^verbatim>\<open>forEach\<close> callback once the label is read:
  \<^verbatim>\<open>if (type) { typeMap.set(type, (typeMap.get(type) || 0) + 1); }\<close>.
  A string is truthy when it is defined and not empty.
\<close>

definition countType :: "string option \<Rightarrow> typeMap \<Rightarrow> typeMap" where
  "countType ty m =
     (case ty of
        None \<Rightarrow> m
      | Some t \<Rightarrow>
          if t = [] then m
          else Map_set m t ((case Map_get m t of None \<Rightarrow> 0 | Some c \<Rightarrow> c) + 1))"

text \<open>\<^verbatim>\<open>data.forEach(...)\<close> with the unguarded read: the first throw ends the loop.\<close>

fun forEach_countTypes :: "string \<Rightarrow> PipelineRunKind list \<Rightarrow> typeMap \<Rightarrow> js_error + typeMap" where
  "forEach_countTypes K [] m = Inr m"
| "forEach_countTypes K (plr # rest) m =
     (case pipelineTypeLabel K plr of
        Inl e \<Rightarrow> Inl e
      | Inr ty \<Rightarrow> forEach_countTypes K rest (countType ty m))"

text \<open>\<^verbatim>\<open>data.forEach(...)\<close> with the guarded read: it cannot throw.\<close>

definition forEach_countTypes_guarded :: "string \<Rightarrow> PipelineRunKind list \<Rightarrow> typeMap \<Rightarrow> typeMap" where
  "forEach_countTypes_guarded K rs m = fold (\<lambda>plr. countType (pipelineTypeLabel_guarded K plr)) rs m"

record FilterOption =
  optValue :: string
  optLabel :: string
  optCount :: nat

text \<open>
  \<^verbatim>\<open>type.charAt(0).toUpperCase() + type.slice(1)\<close>. Label values are ASCII
  (alphanumerics, dash, underscore, dot), and the upper-casing is modelled on ASCII
  letters.
\<close>

definition toUpperCase :: "char \<Rightarrow> char" where
  "toUpperCase c =
     (if (97::nat) \<le> of_char c \<and> of_char c \<le> (122::nat)
      then char_of (of_char c - (32::nat)) else c)"

fun capitalize :: "string \<Rightarrow> string" where
  "capitalize [] = []"
| "capitalize (c # cs) = toUpperCase c # cs"

text \<open>\<^verbatim>\<open>Array.from(typeMap.entries()).map(([type, count]) => ({value, label, count}))\<close>.\<close>

definition toOptions :: "(string \<Rightarrow> string) \<Rightarrow> typeMap \<Rightarrow> FilterOption list" where
  "toOptions lbl m = map (\<lambda>(t, c). \<lparr>optValue = t, optLabel = lbl t, optCount = c\<rparr>) m"

text \<open>The type facet's \<^verbatim>\<open>getOptions\<close> of the commit tab (capitalised labels).\<close>

definition CommitsPipelineRunTab_getOptions ::
    "string \<Rightarrow> PipelineRunKind list \<Rightarrow> js_error + FilterOption list" where
  "CommitsPipelineRunTab_getOptions K rs =
     (case forEach_countTypes K rs [] of
        Inl e \<Rightarrow> Inl e
      | Inr typeMap \<Rightarrow> Inr (toOptions capitalize typeMap))"

text \<open>The type facet's \<^verbatim>\<open>getOptions\<close> of the snapshot list (the raw value as label).\<close>

definition SnapshotPipelineRunsList_getOptions ::
    "string \<Rightarrow> PipelineRunKind list \<Rightarrow> js_error + FilterOption list" where
  "SnapshotPipelineRunsList_getOptions K rs =
     (case forEach_countTypes K rs [] of
        Inl e \<Rightarrow> Inl e
      | Inr typeMap \<Rightarrow> Inr (toOptions (\<lambda>t. t) typeMap))"

text \<open>The type facet's \<^verbatim>\<open>getOptions\<close> of the application view (guarded read).\<close>

definition PipelineRunsListView_getOptions :: "string \<Rightarrow> PipelineRunKind list \<Rightarrow> FilterOption list" where
  "PipelineRunsListView_getOptions K rs = toOptions capitalize (forEach_countTypes_guarded K rs [])"

section \<open>Sorting by start time\<close>

text \<open>\<^verbatim>\<open>x.status?.startTime\<close>.\<close>

definition startTimeOf :: "PipelineRunKind \<Rightarrow> string option" where
  "startTimeOf x = (case status x of None \<Rightarrow> None | Some s \<Rightarrow> startTime s)"

text \<open>
  The comparator \<^verbatim>\<open>(a, b) => b.status?.startTime?.localeCompare(a.status?.startTime)\<close>.
  When \<^verbatim>\<open>b\<close> has no start time the chain stops and the value is \<^verbatim>\<open>undefined\<close>
  (\<open>None\<close>). Otherwise \<^verbatim>\<open>localeCompare\<close> is called; an \<^verbatim>\<open>undefined\<close> argument is
  converted to the string \<^verbatim>\<open>"undefined"\<close>. The built-in \<^verbatim>\<open>localeCompare\<close> is the
  parameter \<open>lc\<close>: \<open>lc s t\<close> is \<^verbatim>\<open>s.localeCompare(t)\<close>.
\<close>

definition compareByStartTime ::
    "(string \<Rightarrow> string \<Rightarrow> int) \<Rightarrow> PipelineRunKind \<Rightarrow> PipelineRunKind \<Rightarrow> int option" where
  "compareByStartTime lc a b =
     (case startTimeOf b of
        None \<Rightarrow> None
      | Some tb \<Rightarrow> Some (lc tb (case startTimeOf a of None \<Rightarrow> ''undefined'' | Some ta \<Rightarrow> ta)))"

text \<open>
  ECMAScript's SortCompare with a comparator: the comparator's value is converted to a
  number, and \<^verbatim>\<open>undefined\<close> (which converts to NaN) counts as \<open>+0\<close>.
\<close>

definition sortCompare :: "('a \<Rightarrow> 'a \<Rightarrow> int option) \<Rightarrow> 'a \<Rightarrow> 'a \<Rightarrow> int" where
  "sortCompare cmp x y = (case cmp x y of None \<Rightarrow> 0 | Some v \<Rightarrow> v)"

text \<open>
  \<^verbatim>\<open>Array.prototype.sort\<close> and \<^verbatim>\<open>toSorted\<close> are stable, and for a consistent comparator
  their result is fixed by the language: the one stable ordering of the elements. The
  model computes it by insertion, an element going in front of the first one it does
  not compare greater than. For an inconsistent comparator the language leaves the
  order to the engine, and the model is one engine.
\<close>

fun insertSorted :: "('a \<Rightarrow> 'a \<Rightarrow> int) \<Rightarrow> 'a \<Rightarrow> 'a list \<Rightarrow> 'a list" where
  "insertSorted c x [] = [x]"
| "insertSorted c x (y # ys) = (if c x y \<le> 0 then x # y # ys else y # insertSorted c x ys)"

definition js_sort :: "('a \<Rightarrow> 'a \<Rightarrow> int option) \<Rightarrow> 'a list \<Rightarrow> 'a list" where
  "js_sort cmp xs = foldr (insertSorted (sortCompare cmp)) xs []"

text \<open>
  A comparison of strings by code unit, three-valued as \<^verbatim>\<open>localeCompare\<close> is: the order
  every collation gives to timestamps of one ISO-8601 format.
\<close>

fun codeUnitCompare :: "string \<Rightarrow> string \<Rightarrow> int" where
  "codeUnitCompare [] [] = 0"
| "codeUnitCompare [] (y # ys) = - 1"
| "codeUnitCompare (x # xs) [] = 1"
| "codeUnitCompare (x # xs) (y # ys) =
     (if (of_char x :: nat) < of_char y then - 1
      else if (of_char y :: nat) < of_char x then 1
      else codeUnitCompare xs ys)"

text \<open>
  What the sort needs of \<^verbatim>\<open>localeCompare\<close>: it is a consistent comparator, its sign
  flips when the arguments are swapped and "not greater" is transitive.
\<close>

definition consistentComparator :: "(string \<Rightarrow> string \<Rightarrow> int) \<Rightarrow> bool" where
  "consistentComparator lc \<longleftrightarrow>
     (\<forall>s t. (lc s t < 0) = (0 < lc t s)) \<and>
     (\<forall>s t u. lc s t \<le> 0 \<and> lc t u \<le> 0 \<longrightarrow> lc s u \<le> 0)"

text \<open>
  The order the sort is to produce, between an element and one before it: both have a
  start time, and the later element's compares not greater than the earlier one's.
\<close>

definition startTimeNotAfter ::
    "(string \<Rightarrow> string \<Rightarrow> int) \<Rightarrow> PipelineRunKind \<Rightarrow> PipelineRunKind \<Rightarrow> bool" where
  "startTimeNotAfter lc later earlier \<longleftrightarrow>
     (case (startTimeOf later, startTimeOf earlier) of
        (Some tLater, Some tEarlier) \<Rightarrow> lc tLater tEarlier \<le> 0
      | _ \<Rightarrow> False)"

section \<open>What the views are given\<close>

text \<open>
  The failure a fetch hook reports, read by the views as
  \<^verbatim>\<open>(error as { code: number }).code\<close>: an object whose \<^verbatim>\<open>code\<close> may be missing.
\<close>

record FetchError =
  code :: "int option"

text \<open>What \<^verbatim>\<open>HttpError.fromCode\<close> returns; the views read its \<^verbatim>\<open>message\<close> only.\<close>

record HttpError =
  message :: string

text \<open>
  A call of the next-page trigger, as an entry of the trace a callback leaves. The hook's
  \<^verbatim>\<open>getNextPage\<close> may be undefined (\<^verbatim>\<open>getNextPage?.()\<close>): \<open>None\<close>; when it is defined
  it holds the entry a call of it leaves.
\<close>

datatype call = GetNextPage

text \<open>\<^verbatim>\<open>{ isFetchingNextPage, hasNextPage }\<close>: the snapshot list's \<^verbatim>\<open>nextPageProps\<close>.\<close>

record NextPageProps =
  isFetchingNextPage :: bool
  hasNextPage :: bool

text \<open>
  The tuple of \<^verbatim>\<open>usePipelineRuns\<close> and \<^verbatim>\<open>usePipelineRunsForCommit\<close>:
  \<^verbatim>\<open>[pipelineRuns, loaded, error, getNextPage, { isFetchingNextPage, hasNextPage }]\<close>,
  its last component as the fields of the parent record. The collection is
  \<^verbatim>\<open>undefined\<close> until a page has arrived.
\<close>

record PipelineRunsResult = NextPageProps +
  pipelineRuns :: "PipelineRunKind list option"
  fetchLoaded :: bool
  error :: "FetchError option"
  getNextPage :: "call option"

text \<open>
  The URL's query parameters, in order. \<^verbatim>\<open>get\<close> returns the first value of a key or
  \<^verbatim>\<open>null\<close>, \<^verbatim>\<open>delete\<close> removes every entry of a key.
\<close>

type_synonym URLSearchParams = "(string \<times> string) list"

definition URLSearchParams_get :: "URLSearchParams \<Rightarrow> string \<Rightarrow> string option" where
  "URLSearchParams_get sp k = map_of sp k"

definition URLSearchParams_delete :: "URLSearchParams \<Rightarrow> string \<Rightarrow> URLSearchParams" where
  "URLSearchParams_delete sp k = filter (\<lambda>(k', v). k' \<noteq> k) sp"

text \<open>
  The collaborators whose code is not among the sources, as parameters of the views:
  the hook \<^verbatim>\<open>useFilteredData\<close> applied to the view's \<^verbatim>\<open>filterConfigs\<close> (it reads the
  URL's query state and returns \<^verbatim>\<open>{ filteredData, isFiltered }\<close>), the hook
  \<^verbatim>\<open>usePLRVulnerabilities\<close>, \<^verbatim>\<open>HttpError.fromCode\<close> (its argument is a number or
  \<^verbatim>\<open>undefined\<close>), the built-in \<^verbatim>\<open>localeCompare\<close>, and whether the engine has
  \<^verbatim>\<open>Array.prototype.toSorted\<close>.
\<close>

record 'v Env =
  useFilteredData :: "URLSearchParams \<Rightarrow> PipelineRunKind list \<Rightarrow> PipelineRunKind list \<times> bool"
  usePLRVulnerabilities :: "PipelineRunKind list option \<Rightarrow> 'v"
  fromCode :: "int option \<Rightarrow> HttpError"
  localeCompare :: "string \<Rightarrow> string \<Rightarrow> int"
  toSortedAvailable :: bool

section \<open>What the views render\<close>

text \<open>
  The two empty states. \<^verbatim>\<open>FilteredEmptyState\<close> carries its \<^verbatim>\<open>onClearFilters\<close> action,
  as the query state the action sets; \<^verbatim>\<open>PipelineRunEmptyState\<close> carries the
  application's name.
\<close>

datatype emptyState =
    FilteredEmptyState URLSearchParams
  | PipelineRunEmptyState string

text \<open>\<^verbatim>\<open>infiniteLoaderProps\<close>; \<^verbatim>\<open>loadMoreRows\<close> is the trace one call of it leaves.\<close>

record InfiniteLoaderProps =
  isRowLoaded :: "int \<Rightarrow> bool"
  loadMoreRows :: "call list"
  rowCount :: nat

text \<open>
  The props of \<^verbatim>\<open>Table\<close> that carry data (the header and row renderers, the label, the
  key and \<^verbatim>\<open>getRowProps\<close> are presentation). \<^verbatim>\<open>NoDataEmptyMsg\<close> is optional: only the
  commit tab passes it.
\<close>

record 'v TableProps =
  unfilteredData :: "PipelineRunKind list"
  data :: "PipelineRunKind list"
  loaded :: bool
  customData :: 'v
  EmptyMsg :: emptyState
  NoDataEmptyMsg :: "emptyState option"
  infiniteLoaderProps :: InfiniteLoaderProps

text \<open>
  What a view returns: the error state (\<^verbatim>\<open>httpError\<close>, \<^verbatim>\<open>title\<close>, \<^verbatim>\<open>body\<close>), an
  empty state on its own, the snapshot list's spinner, or the list: the toolbar with
  the data it is given (\<open>None\<close> when it is not rendered), the table, and whether the
  next-page spinner stands below it.
\<close>

datatype 'v rendered =
    ErrorEmptyState HttpError string string
  | EmptyStateOnly emptyState
  | LoadingSpinner
  | ListWithTable "PipelineRunKind list option" "'v TableProps" bool

text \<open>
  \<^verbatim>\<open>xs[i]\<close> for an integer \<open>i\<close>: the element, or \<^verbatim>\<open>undefined\<close> outside the array.
  \<^verbatim>\<open>!!xs[i]\<close> is then whether the read gave an element (a record is an object, and
  truthy).
\<close>

definition js_index :: "'a list \<Rightarrow> int \<Rightarrow> 'a option" where
  "js_index xs i = (if 0 \<le> i \<and> i < int (length xs) then Some (xs ! nat i) else None)"

text \<open>
  The error branch shared by the commit tab and the application view:
  \<^verbatim>\<open>HttpError.fromCode(error ? (error as { code: number }).code : 404)\<close>, then the error
  state with the fixed title and the body
  \<^verbatim>\<open>httpError?.message.length > 0 ? httpError?.message : 'Something went wrong'\<close>
  (the application view tests \<^verbatim>\<open>httpError?.message.length\<close>, which is the same test
  on a length). The first definition is the argument expression; the views evaluate it
  where \<^verbatim>\<open>error\<close> is known to be truthy.
\<close>

definition fromCodeArgument :: "FetchError option \<Rightarrow> int option" where
  "fromCodeArgument err = (case err of Some e \<Rightarrow> code e | None \<Rightarrow> Some 404)"

definition errorState :: "'v Env \<Rightarrow> FetchError \<Rightarrow> 'v rendered" where
  "errorState env e =
     (let httpError = fromCode env (fromCodeArgument (Some e))
      in ErrorEmptyState httpError ''Unable to load pipeline runs''
           (if length (message httpError) > 0 then message httpError
            else ''Something went wrong''))"

subsection \<open>The commit tab\<close>

definition CommitsPipelineRunTab ::
    "'v Env \<Rightarrow> URLSearchParams \<Rightarrow> string \<Rightarrow> PipelineRunsResult \<Rightarrow> 'v rendered" where
  "CommitsPipelineRunTab env searchParams applicationName h =
     (let (filteredPLRs, isFiltered) =
            useFilteredData env searchParams
              (case pipelineRuns h of None \<Rightarrow> [] | Some rs \<Rightarrow> rs);
          vulnerabilities =
            usePLRVulnerabilities env (if isFiltered then Some filteredPLRs else pipelineRuns h)
      in case error h of
           Some e \<Rightarrow> errorState env e
         | None \<Rightarrow>
             if fetchLoaded h \<and> (case pipelineRuns h of None \<Rightarrow> True | Some rs \<Rightarrow> length rs = 0)
             then EmptyStateOnly (PipelineRunEmptyState applicationName)
             else
               ListWithTable
                 (if isFiltered \<or> (case pipelineRuns h of None \<Rightarrow> False | Some rs \<Rightarrow> length rs > 0)
                  then Some (case pipelineRuns h of None \<Rightarrow> [] | Some rs \<Rightarrow> rs) else None)
                 \<lparr> unfilteredData = (case pipelineRuns h of None \<Rightarrow> [] | Some rs \<Rightarrow> rs),
                   data = filteredPLRs,
                   loaded = (isFetchingNextPage h \<or> fetchLoaded h),
                   customData = vulnerabilities,
                   EmptyMsg = (if isFiltered then FilteredEmptyState []
                               else PipelineRunEmptyState applicationName),
                   NoDataEmptyMsg = Some (PipelineRunEmptyState applicationName),
                   infiniteLoaderProps =
                     \<lparr> isRowLoaded = (\<lambda>index. js_index filteredPLRs index \<noteq> None),
                       loadMoreRows =
                         (if hasNextPage h \<and> \<not> isFetchingNextPage h
                          then (case getNextPage h of None \<Rightarrow> [] | Some c \<Rightarrow> [c]) else []),
                       rowCount = (if hasNextPage h then length filteredPLRs + 1
                                   else length filteredPLRs) \<rparr> \<rparr>
                 (isFetchingNextPage h))"

subsection \<open>The application view\<close>

text \<open>
  \<^verbatim>\<open>sortedPipelineRuns\<close>: empty while the collection is \<^verbatim>\<open>undefined\<close>, else a sorted copy,
  by \<^verbatim>\<open>toSorted\<close> where the engine has it and by \<^verbatim>\<open>[...pipelineRuns].sort\<close> otherwise.
\<close>

definition sortedPipelineRuns :: "'v Env \<Rightarrow> PipelineRunKind list option \<Rightarrow> PipelineRunKind list" where
  "sortedPipelineRuns env prs =
     (case prs of
        None \<Rightarrow> []
      | Some rs \<Rightarrow>
          if toSortedAvailable env then js_sort (compareByStartTime (localeCompare env)) rs
          else js_sort (compareByStartTime (localeCompare env)) rs)"

text \<open>\<^verbatim>\<open>customFilter ? sortedPipelineRuns.filter(customFilter) : sortedPipelineRuns\<close>.\<close>

definition baseFilteredRuns ::
    "(PipelineRunKind \<Rightarrow> bool) option \<Rightarrow> PipelineRunKind list \<Rightarrow> PipelineRunKind list" where
  "baseFilteredRuns customFilter sortedRuns =
     (case customFilter of Some f \<Rightarrow> filter f sortedRuns | None \<Rightarrow> sortedRuns)"

text \<open>\<^verbatim>\<open>searchParams.get('name') || ''\<close>.\<close>

definition nameParam :: "URLSearchParams \<Rightarrow> string" where
  "nameParam searchParams =
     (case URLSearchParams_get searchParams ''name'' of None \<Rightarrow> [] | Some s \<Rightarrow> s)"

definition PipelineRunsListView ::
    "'v Env \<Rightarrow> URLSearchParams \<Rightarrow> string \<Rightarrow> (PipelineRunKind \<Rightarrow> bool) option \<Rightarrow>
     PipelineRunsResult \<Rightarrow> 'v rendered" where
  "PipelineRunsListView env searchParams applicationName customFilter h =
     (let sortedRuns = sortedPipelineRuns env (pipelineRuns h);
          base = baseFilteredRuns customFilter sortedRuns;
          (filteredPLRs, isFiltered) = useFilteredData env searchParams base;
          vulnerabilities =
            usePLRVulnerabilities env
              (Some (if nameParam searchParams \<noteq> [] then filteredPLRs else sortedRuns))
      in case error h of
           Some e \<Rightarrow> errorState env e
         | None \<Rightarrow>
             ListWithTable
               (if isFiltered \<or> length sortedRuns > 0 then Some base else None)
               \<lparr> unfilteredData = sortedRuns,
                 data = filteredPLRs,
                 loaded = (isFetchingNextPage h \<or> fetchLoaded h),
                 customData = vulnerabilities,
                 EmptyMsg = (if isFiltered then FilteredEmptyState []
                             else PipelineRunEmptyState applicationName),
                 NoDataEmptyMsg = None,
                 infiniteLoaderProps =
                   \<lparr> isRowLoaded = (\<lambda>index. js_index filteredPLRs index \<noteq> None),
                     loadMoreRows =
                       (if hasNextPage h \<and> \<not> isFetchingNextPage h
                        then (case getNextPage h of None \<Rightarrow> [] | Some c \<Rightarrow> [c]) else []),
                     rowCount = (if hasNextPage h then length filteredPLRs + 1
                                 else length filteredPLRs) \<rparr> \<rparr>
               (isFetchingNextPage h))"

subsection \<open>The snapshot list\<close>

text \<open>
  The filter descriptors as far as \<^verbatim>\<open>handleClearFilters\<close> reads them: the kind, the
  \<^verbatim>\<open>param\<close>, and a search filter's attribute keys.
\<close>

datatype FilterConfig =
    SearchFilter string "string list"
  | MultiSelectFilter string

definition filterConfigs :: "FilterConfig list" where
  "filterConfigs =
     [SearchFilter ''search'' [''name'', ''commit''],
      MultiSelectFilter ''status'',
      MultiSelectFilter ''type'']"

text \<open>
  \<^verbatim>\<open>handleClearFilters\<close>: a copy of the query state with every attribute key of a search
  filter and the \<^verbatim>\<open>param\<close> of every other filter deleted; the value is the state
  handed to \<^verbatim>\<open>setSearchParams\<close>.
\<close>

definition handleClearFilters :: "URLSearchParams \<Rightarrow> URLSearchParams" where
  "handleClearFilters searchParams =
     fold (\<lambda>config newParams.
             case config of
               SearchFilter param attributes \<Rightarrow>
                 fold (\<lambda>key ps. URLSearchParams_delete ps key) attributes newParams
             | MultiSelectFilter param \<Rightarrow> URLSearchParams_delete newParams param)
          filterConfigs searchParams"

text \<open>\<^verbatim>\<open>customFilter ? snapshotPipelineRuns.filter(customFilter) : snapshotPipelineRuns\<close>.\<close>

definition filteredByCustomFilter ::
    "(PipelineRunKind \<Rightarrow> bool) option \<Rightarrow> PipelineRunKind list \<Rightarrow> PipelineRunKind list" where
  "filteredByCustomFilter customFilter snapshotPipelineRuns =
     (case customFilter of
        Some f \<Rightarrow> filter f snapshotPipelineRuns
      | None \<Rightarrow> snapshotPipelineRuns)"

text \<open>
  The props are \<^verbatim>\<open>snapshotPipelineRuns\<close> (an array by its declared type),
  \<^verbatim>\<open>applicationName\<close>, \<^verbatim>\<open>loaded\<close>, \<^verbatim>\<open>getNextPage\<close>, \<^verbatim>\<open>nextPageProps\<close> and
  \<^verbatim>\<open>customFilter\<close>.
\<close>

definition SnapshotPipelineRunsList ::
    "'v Env \<Rightarrow> URLSearchParams \<Rightarrow> PipelineRunKind list \<Rightarrow> string \<Rightarrow> bool \<Rightarrow> call option \<Rightarrow>
     NextPageProps \<Rightarrow> (PipelineRunKind \<Rightarrow> bool) option \<Rightarrow> 'v rendered" where
  "SnapshotPipelineRunsList env searchParams snapshotPipelineRuns applicationName isLoaded
       nextPage nextPageProps customFilter =
     (let byCustomFilter = filteredByCustomFilter customFilter snapshotPipelineRuns;
          (filteredPLRs, isFiltered) = useFilteredData env searchParams byCustomFilter;
          vulnerabilities =
            usePLRVulnerabilities env
              (Some (if isFiltered then filteredPLRs else snapshotPipelineRuns))
      in if \<not> isLoaded then LoadingSpinner
         else if length snapshotPipelineRuns = 0
         then EmptyStateOnly (PipelineRunEmptyState applicationName)
         else
           ListWithTable
             (if isFiltered \<or> length snapshotPipelineRuns > 0 then Some byCustomFilter else None)
             \<lparr> unfilteredData = snapshotPipelineRuns,
               data = filteredPLRs,
               loaded = True,
               customData = vulnerabilities,
               EmptyMsg = (if isFiltered then FilteredEmptyState (handleClearFilters searchParams)
                           else PipelineRunEmptyState applicationName),
               NoDataEmptyMsg = None,
               infiniteLoaderProps =
                 \<lparr> isRowLoaded = (\<lambda>index. js_index filteredPLRs index \<noteq> None),
                   loadMoreRows =
                     (if hasNextPage nextPageProps \<and> \<not> isFetchingNextPage nextPageProps
                      then (case nextPage of None \<Rightarrow> [] | Some c \<Rightarrow> [c]) else []),
                   rowCount = (if hasNextPage nextPageProps then length filteredPLRs + 1
                               else length filteredPLRs) \<rparr> \<rparr>
             False)"

subsection \<open>The table\<close>

datatype tableOutput =
    TableLoading
  | TableEmptyState emptyState
  | TableRows "PipelineRunKind list"

text \<open>
  Modelled from the spec: the shared \<^verbatim>\<open>Table\<close> renderer, whose code is not among the
  sources. By the specification's section 4.12 its \<^verbatim>\<open>loaded\<close> flag decides whether a
  loading indicator stands in place of the rows, and the pair
  \<^verbatim>\<open>EmptyMsg\<close>/\<^verbatim>\<open>NoDataEmptyMsg\<close> tells "filters produced nothing" from "there is
  nothing at all": with no unfiltered data the table shows \<^verbatim>\<open>NoDataEmptyMsg\<close> when the
  caller passed one, with no data to show it shows \<^verbatim>\<open>EmptyMsg\<close>, and otherwise the
  rows.
\<close>

definition Table :: "'v TableProps \<Rightarrow> tableOutput" where
  "Table p =
     (if \<not> loaded p then TableLoading
      else case (if unfilteredData p = [] then NoDataEmptyMsg p else None) of
             Some noData \<Rightarrow> TableEmptyState noData
           | None \<Rightarrow> if data p = [] then TableEmptyState (EmptyMsg p) else TableRows (data p))"

text \<open>What stands on the screen where the list is: the view's own state, or the table's.\<close>

datatype display =
    ShowsError string string
  | ShowsEmptyState emptyState
  | ShowsLoading
  | ShowsRows "PipelineRunKind list"

fun displayed :: "'v rendered \<Rightarrow> display" where
  "displayed (ErrorEmptyState httpError title body) = ShowsError title body"
| "displayed (EmptyStateOnly s) = ShowsEmptyState s"
| "displayed LoadingSpinner = ShowsLoading"
| "displayed (ListWithTable toolbar p spinner) =
     (case Table p of
        TableLoading \<Rightarrow> ShowsLoading
      | TableEmptyState s \<Rightarrow> ShowsEmptyState s
      | TableRows rows \<Rightarrow> ShowsRows rows)"

text \<open>The props the view hands to the table, when it renders one.\<close>

fun tableProps :: "'v rendered \<Rightarrow> 'v TableProps option" where
  "tableProps (ListWithTable toolbar p spinner) = Some p"
| "tableProps (ErrorEmptyState httpError title body) = None"
| "tableProps (EmptyStateOnly s) = None"
| "tableProps LoadingSpinner = None"

section \<open>Concrete inputs\<close>

text \<open>
  Inputs on which the theorems below are run: a label key, records with and without a
  label map, and an environment whose \<^verbatim>\<open>useFilteredData\<close> filters by the \<^verbatim>\<open>type\<close>
  parameter alone, whose \<^verbatim>\<open>usePLRVulnerabilities\<close> returns the collection it is given,
  whose error mapper knows two codes and whose \<^verbatim>\<open>localeCompare\<close> compares code units.
\<close>

definition typeKey :: string where
  "typeKey = ''pipelines.appstudio.openshift.io/type''"

definition run :: "string \<Rightarrow> string \<Rightarrow> string \<Rightarrow> PipelineRunKind" where
  "run n ty t =
     \<lparr> metadata = \<lparr> name = n, labels = Some [typeKey \<mapsto> ty] \<rparr>,
       status = Some \<lparr> startTime = Some t \<rparr> \<rparr>"

definition runWithoutLabels :: "string \<Rightarrow> PipelineRunKind" where
  "runWithoutLabels n = \<lparr> metadata = \<lparr> name = n, labels = None \<rparr>, status = None \<rparr>"

definition filterByTypeParam ::
    "URLSearchParams \<Rightarrow> PipelineRunKind list \<Rightarrow> PipelineRunKind list \<times> bool" where
  "filterByTypeParam sp rs =
     (case URLSearchParams_get sp ''type'' of
        None \<Rightarrow> (rs, False)
      | Some v \<Rightarrow>
          if v = [] then (rs, False)
          else (filter (\<lambda>plr. pipelineTypeLabel_guarded typeKey plr = Some v) rs, True))"

definition messageOfCode :: "int option \<Rightarrow> HttpError" where
  "messageOfCode c =
     \<lparr> message = (if c = Some 404 then ''Not Found''
                  else if c = Some 500 then ''Internal Server Error'' else []) \<rparr>"

definition exampleEnv :: "PipelineRunKind list option Env" where
  "exampleEnv =
     \<lparr> useFilteredData = filterByTypeParam,
       usePLRVulnerabilities = (\<lambda>collection. collection),
       fromCode = messageOfCode,
       localeCompare = codeUnitCompare,
       toSortedAvailable = True \<rparr>"

definition exampleResult :: "PipelineRunKind list option \<Rightarrow> FetchError option \<Rightarrow> PipelineRunsResult" where
  "exampleResult prs err =
     \<lparr> isFetchingNextPage = False, hasNextPage = True,
       pipelineRuns = prs, fetchLoaded = True, error = err,
       getNextPage = Some GetNextPage \<rparr>"

definition twoRuns :: "PipelineRunKind list" where
  "twoRuns =
     [run ''a'' ''build'' ''2024-01-01T00:00:00Z'',
      run ''b'' ''test'' ''2024-02-01T00:00:00Z'']"

definition morePages :: NextPageProps where
  "morePages = \<lparr> isFetchingNextPage = False, hasNextPage = True \<rparr>"

definition noMorePages :: NextPageProps where
  "noMorePages = \<lparr> isFetchingNextPage = False, hasNextPage = False \<rparr>"

definition fetchingResult :: "PipelineRunKind list option \<Rightarrow> PipelineRunsResult" where
  "fetchingResult prs =
     \<lparr> isFetchingNextPage = True, hasNextPage = True,
       pipelineRuns = prs, fetchLoaded = True, error = None,
       getNextPage = Some GetNextPage \<rparr>"

definition notNamedB :: "PipelineRunKind \<Rightarrow> bool" where
  "notNamedB plr \<longleftrightarrow> name (metadata plr) \<noteq> ''b''"

section \<open>Lemmas: the type map\<close>

lemma map_fst_Map_set:
  "map fst (Map_set m k v) = (if k \<in> fst ` set m then map fst m else map fst m @ [k])"
  by (induction m) force+

lemma keys_Map_set: "fst ` set (Map_set m k v) = insert k (fst ` set m)"
proof -
  have "set (map fst (Map_set m k v)) = insert k (fst ` set m)"
    unfolding map_fst_Map_set by auto
  then show ?thesis by simp
qed

lemma map_of_Map_set: "map_of (Map_set m k v) = (map_of m)(k \<mapsto> v)"
  by (induction m) (auto simp: fun_eq_iff)

lemma distinct_Map_set: "distinct (map fst m) \<Longrightarrow> distinct (map fst (Map_set m k v))"
  by (simp add: map_fst_Map_set)

lemma keys_countType:
  "fst ` set (countType ty m) =
     fst ` set m \<union> (case ty of None \<Rightarrow> {} | Some t \<Rightarrow> if t = [] then {} else {t})"
  by (simp add: countType_def keys_Map_set split: option.splits)

lemma distinct_countType: "distinct (map fst m) \<Longrightarrow> distinct (map fst (countType ty m))"
  by (simp add: countType_def distinct_Map_set split: option.splits)

lemma map_of_countType:
  "map_of (countType ty m) t =
     (if ty = Some t \<and> t \<noteq> [] then Some (countIn m t + 1) else map_of m t)"
  by (auto simp: countType_def map_of_Map_set Map_get_def countIn_def split: option.splits)

lemma keys_forEach_guarded:
  "fst ` set (forEach_countTypes_guarded K rs m) =
     fst ` set m \<union> {t. t \<noteq> [] \<and> (\<exists>plr\<in>set rs. pipelineTypeLabel_guarded K plr = Some t)}"
  unfolding forEach_countTypes_guarded_def
proof (induction rs arbitrary: m)
  case Nil
  then show ?case by simp
next
  case (Cons r rs)
  show ?case
    by (simp only: fold_simps Cons.IH keys_countType) (auto split: option.splits if_splits)
qed

lemma distinct_forEach_guarded:
  "distinct (map fst m) \<Longrightarrow> distinct (map fst (forEach_countTypes_guarded K rs m))"
  unfolding forEach_countTypes_guarded_def
  by (induction rs arbitrary: m) (simp_all add: distinct_countType)

lemma count_forEach_guarded:
  "map_of (forEach_countTypes_guarded K rs m) t =
     (if t \<noteq> [] \<and> (\<exists>plr\<in>set rs. pipelineTypeLabel_guarded K plr = Some t)
      then Some (countIn m t + length (filter (\<lambda>plr. pipelineTypeLabel_guarded K plr = Some t) rs))
      else map_of m t)"
  unfolding forEach_countTypes_guarded_def
proof (induction rs arbitrary: m)
  case Nil
  then show ?case by simp
next
  case (Cons r rs)
  have step: "countIn (countType ty m) t = (if ty = Some t \<and> t \<noteq> [] then countIn m t + 1 else countIn m t)" for ty
    by (simp add: countIn_def map_of_countType)
  show ?case
    by (simp only: fold_simps Cons.IH map_of_countType step)
       (auto simp: countIn_def split: option.splits)
qed

lemma forEach_countTypes_labelled:
  "\<forall>plr\<in>set rs. labels (metadata plr) \<noteq> None \<Longrightarrow>
     forEach_countTypes K rs m = Inr (forEach_countTypes_guarded K rs m)"
  unfolding forEach_countTypes_guarded_def
  by (induction rs arbitrary: m)
     (auto simp: pipelineTypeLabel_def pipelineTypeLabel_guarded_def split: option.splits)

lemma forEach_countTypes_throws:
  "\<exists>plr\<in>set rs. labels (metadata plr) = None \<Longrightarrow> forEach_countTypes K rs m = Inl TypeError"
proof (induction rs arbitrary: m)
  case Nil
  then show ?case by simp
next
  case (Cons r rs)
  then show ?case
    by (cases "labels (metadata r)") (auto simp: pipelineTypeLabel_def)
qed

lemma toUpperCase_b: "toUpperCase CHR ''b'' = CHR ''B''"
  by code_simp

lemma toOptions_values: "map optValue (toOptions lbl m) = map fst m"
  by (induction m) (auto simp: toOptions_def)

lemma toOptions_member:
  "opt \<in> set (toOptions lbl m) \<Longrightarrow> (optValue opt, optCount opt) \<in> set m"
  by (auto simp: toOptions_def)

lemma getOptions_guarded_exact:
  "distinct (map optValue (PipelineRunsListView_getOptions K rs)) \<and>
   set (map optValue (PipelineRunsListView_getOptions K rs)) =
     {t. t \<noteq> [] \<and> (\<exists>plr\<in>set rs. pipelineTypeLabel_guarded K plr = Some t)} \<and>
   (\<forall>opt\<in>set (PipelineRunsListView_getOptions K rs).
      optCount opt =
        length (filter (\<lambda>plr. pipelineTypeLabel_guarded K plr = Some (optValue opt)) rs))"
proof (intro conjI ballI)
  let ?m = "forEach_countTypes_guarded K rs []"
  have d: "distinct (map fst ?m)" by (simp add: distinct_forEach_guarded)
  then show "distinct (map optValue (PipelineRunsListView_getOptions K rs))"
    by (simp add: PipelineRunsListView_getOptions_def toOptions_values)
  have keys: "fst ` set ?m = {t. t \<noteq> [] \<and> (\<exists>plr\<in>set rs. pipelineTypeLabel_guarded K plr = Some t)}"
    by (simp add: keys_forEach_guarded)
  show "set (map optValue (PipelineRunsListView_getOptions K rs)) =
     {t. t \<noteq> [] \<and> (\<exists>plr\<in>set rs. pipelineTypeLabel_guarded K plr = Some t)}"
    unfolding PipelineRunsListView_getOptions_def toOptions_values using keys by simp
  fix opt assume "opt \<in> set (PipelineRunsListView_getOptions K rs)"
  then have mem: "(optValue opt, optCount opt) \<in> set ?m"
    by (simp add: PipelineRunsListView_getOptions_def toOptions_member)
  then have "map_of ?m (optValue opt) = Some (optCount opt)"
    using d by simp
  moreover have "optValue opt \<in> fst ` set ?m" using mem by force
  ultimately show "optCount opt =
        length (filter (\<lambda>plr. pipelineTypeLabel_guarded K plr = Some (optValue opt)) rs)"
    unfolding keys by (simp add: count_forEach_guarded countIn_def)
qed

lemma getOptions_unguarded:
  "CommitsPipelineRunTab_getOptions K rs =
     (if \<exists>plr\<in>set rs. labels (metadata plr) = None then Inl TypeError
      else Inr (PipelineRunsListView_getOptions K rs))"
  "SnapshotPipelineRunsList_getOptions K rs =
     (if \<exists>plr\<in>set rs. labels (metadata plr) = None then Inl TypeError
      else Inr (toOptions (\<lambda>t. t) (forEach_countTypes_guarded K rs [])))"
  by (auto simp: CommitsPipelineRunTab_getOptions_def SnapshotPipelineRunsList_getOptions_def
        PipelineRunsListView_getOptions_def forEach_countTypes_throws forEach_countTypes_labelled)

section \<open>Lemmas: sorting\<close>

lemma mset_insertSorted: "mset (insertSorted c x ys) = add_mset x (mset ys)"
  by (induction ys) auto

lemma set_insertSorted: "set (insertSorted c x ys) = insert x (set ys)"
  by (induction ys) auto

lemma mset_js_sort: "mset (js_sort cmp xs) = mset xs"
  unfolding js_sort_def by (induction xs) (simp_all add: mset_insertSorted)

lemma set_js_sort: "set (js_sort cmp xs) = set xs"
  using mset_js_sort [of cmp xs] by (metis set_mset_mset)

lemma js_sort_Nil_iff: "js_sort cmp xs = [] \<longleftrightarrow> xs = []"
  using mset_js_sort [of cmp xs] by (metis mset_zero_iff)

lemma sorted_insertSorted:
  assumes total: "\<And>a b. a \<in> A \<Longrightarrow> b \<in> A \<Longrightarrow> \<not> c a b \<le> 0 \<Longrightarrow> c b a \<le> 0"
    and trans: "\<And>a b d. a \<in> A \<Longrightarrow> b \<in> A \<Longrightarrow> d \<in> A \<Longrightarrow> c a b \<le> 0 \<Longrightarrow> c b d \<le> 0 \<Longrightarrow> c a d \<le> 0"
    and "x \<in> A" and "set ys \<subseteq> A" and "sorted_wrt (\<lambda>a b. c a b \<le> 0) ys"
  shows "sorted_wrt (\<lambda>a b. c a b \<le> 0) (insertSorted c x ys)"
  using assms(4,5)
proof (induction ys)
  case Nil
  then show ?case by simp
next
  case (Cons y ys)
  show ?case
  proof (cases "c x y \<le> 0")
    case True
    have "c x z \<le> 0" if "z \<in> set ys" for z
    proof -
      have "c y z \<le> 0" using Cons.prems(2) that by simp
      then show ?thesis using trans [of x y z] True \<open>x \<in> A\<close> Cons.prems(1) that by auto
    qed
    then show ?thesis using True Cons.prems(2) by simp
  next
    case False
    have "c y x \<le> 0" using total [of x y] False \<open>x \<in> A\<close> Cons.prems(1) by simp
    moreover have "sorted_wrt (\<lambda>a b. c a b \<le> 0) (insertSorted c x ys)"
      using Cons.IH Cons.prems by simp
    ultimately show ?thesis using False Cons.prems(2) by (simp add: set_insertSorted)
  qed
qed

lemma sorted_js_sort:
  assumes total: "\<And>a b. a \<in> set xs \<Longrightarrow> b \<in> set xs \<Longrightarrow> \<not> sortCompare cmp a b \<le> 0 \<Longrightarrow> sortCompare cmp b a \<le> 0"
    and trans: "\<And>a b d. a \<in> set xs \<Longrightarrow> b \<in> set xs \<Longrightarrow> d \<in> set xs \<Longrightarrow>
                  sortCompare cmp a b \<le> 0 \<Longrightarrow> sortCompare cmp b d \<le> 0 \<Longrightarrow> sortCompare cmp a d \<le> 0"
  shows "sorted_wrt (\<lambda>a b. sortCompare cmp a b \<le> 0) (js_sort cmp xs)"
proof -
  have "set ys \<subseteq> set xs \<Longrightarrow> sorted_wrt (\<lambda>a b. sortCompare cmp a b \<le> 0) (js_sort cmp ys)" for ys
  proof (induction ys)
    case Nil
    then show ?case by (simp add: js_sort_def)
  next
    case (Cons y ys)
    have "sorted_wrt (\<lambda>a b. sortCompare cmp a b \<le> 0)
            (insertSorted (sortCompare cmp) y (js_sort cmp ys))"
    proof (rule sorted_insertSorted [where A = "set xs"])
      show "y \<in> set xs" using Cons.prems by simp
      show "set (js_sort cmp ys) \<subseteq> set xs" using Cons.prems by (simp add: set_js_sort)
      show "sorted_wrt (\<lambda>a b. sortCompare cmp a b \<le> 0) (js_sort cmp ys)"
        using Cons.IH Cons.prems by simp
    qed (use total trans in blast)+
    then show ?case by (simp add: js_sort_def)
  qed
  then show ?thesis by simp
qed

lemma sortCompare_startTime:
  "startTimeOf a = Some ta \<Longrightarrow> startTimeOf b = Some tb \<Longrightarrow>
     sortCompare (compareByStartTime lc) a b = lc tb ta"
  by (simp add: sortCompare_def compareByStartTime_def)

lemma codeUnitCompare_swap: "(codeUnitCompare s t < 0) = (0 < codeUnitCompare t s)"
  by (induction s t rule: codeUnitCompare.induct) auto

lemma codeUnitCompare_trans:
  "codeUnitCompare s t \<le> 0 \<Longrightarrow> codeUnitCompare t u \<le> 0 \<Longrightarrow> codeUnitCompare s u \<le> 0"
proof (induction s arbitrary: t u)
  case Nil
  then show ?case by (cases u) auto
next
  case (Cons x xs)
  then show ?case
    by (cases t; cases u) (auto split: if_splits)
qed

lemma consistent_codeUnitCompare: "consistentComparator codeUnitCompare"
  unfolding consistentComparator_def
  using codeUnitCompare_swap codeUnitCompare_trans by blast

lemma sortedPipelineRuns_Nil_iff:
  "sortedPipelineRuns env prs = [] \<longleftrightarrow> (prs = None \<or> prs = Some [])"
  by (cases prs) (simp_all add: sortedPipelineRuns_def js_sort_Nil_iff)

lemma sortedPipelineRuns_example: "sortedPipelineRuns exampleEnv
       (Some [run ''jan'' ''build'' ''2024-01-01T00:00:00Z'',
              run ''mar'' ''build'' ''2024-03-01T00:00:00Z'',
              run ''feb'' ''test'' ''2024-02-01T00:00:00Z'']) =
     [run ''mar'' ''build'' ''2024-03-01T00:00:00Z'',
      run ''feb'' ''test'' ''2024-02-01T00:00:00Z'',
      run ''jan'' ''build'' ''2024-01-01T00:00:00Z'']"
  by (simp add: sortedPipelineRuns_def exampleEnv_def js_sort_def sortCompare_def
        compareByStartTime_def startTimeOf_def run_def)

lemma sorted_twoRuns:
  "sortedPipelineRuns exampleEnv (Some twoRuns) =
     [run ''b'' ''test'' ''2024-02-01T00:00:00Z'', run ''a'' ''build'' ''2024-01-01T00:00:00Z'']"
  by (simp add: sortedPipelineRuns_def exampleEnv_def js_sort_def sortCompare_def
        compareByStartTime_def startTimeOf_def run_def twoRuns_def)

section \<open>Lemmas: the table each view renders\<close>

lemma CommitsPipelineRunTab_table:
  assumes "tableProps (CommitsPipelineRunTab env sp app h) = Some p"
  shows "p =
    \<lparr> unfilteredData = (case pipelineRuns h of None \<Rightarrow> [] | Some rs \<Rightarrow> rs),
      data = fst (useFilteredData env sp (case pipelineRuns h of None \<Rightarrow> [] | Some rs \<Rightarrow> rs)),
      loaded = (isFetchingNextPage h \<or> fetchLoaded h),
      customData = usePLRVulnerabilities env
        (if snd (useFilteredData env sp (case pipelineRuns h of None \<Rightarrow> [] | Some rs \<Rightarrow> rs))
         then Some (fst (useFilteredData env sp (case pipelineRuns h of None \<Rightarrow> [] | Some rs \<Rightarrow> rs)))
         else pipelineRuns h),
      EmptyMsg =
        (if snd (useFilteredData env sp (case pipelineRuns h of None \<Rightarrow> [] | Some rs \<Rightarrow> rs))
         then FilteredEmptyState [] else PipelineRunEmptyState app),
      NoDataEmptyMsg = Some (PipelineRunEmptyState app),
      infiniteLoaderProps =
        \<lparr> isRowLoaded = (\<lambda>index. js_index
             (fst (useFilteredData env sp (case pipelineRuns h of None \<Rightarrow> [] | Some rs \<Rightarrow> rs)))
             index \<noteq> None),
          loadMoreRows =
            (if hasNextPage h \<and> \<not> isFetchingNextPage h
             then (case getNextPage h of None \<Rightarrow> [] | Some c \<Rightarrow> [c]) else []),
          rowCount =
            (if hasNextPage h
             then length (fst (useFilteredData env sp
                    (case pipelineRuns h of None \<Rightarrow> [] | Some rs \<Rightarrow> rs))) + 1
             else length (fst (useFilteredData env sp
                    (case pipelineRuns h of None \<Rightarrow> [] | Some rs \<Rightarrow> rs)))) \<rparr> \<rparr>"
  using assms
  by (cases "error h";
      cases "fetchLoaded h \<and> (case pipelineRuns h of None \<Rightarrow> True | Some rs \<Rightarrow> length rs = 0)")
     (simp_all add: CommitsPipelineRunTab_def errorState_def Let_def case_prod_beta)

lemma PipelineRunsListView_table:
  assumes "tableProps (PipelineRunsListView env sp app cf h) = Some p"
  shows "p =
    \<lparr> unfilteredData = sortedPipelineRuns env (pipelineRuns h),
      data = fst (useFilteredData env sp
               (baseFilteredRuns cf (sortedPipelineRuns env (pipelineRuns h)))),
      loaded = (isFetchingNextPage h \<or> fetchLoaded h),
      customData = usePLRVulnerabilities env
        (Some (if nameParam sp \<noteq> []
               then fst (useFilteredData env sp
                      (baseFilteredRuns cf (sortedPipelineRuns env (pipelineRuns h))))
               else sortedPipelineRuns env (pipelineRuns h))),
      EmptyMsg =
        (if snd (useFilteredData env sp
                  (baseFilteredRuns cf (sortedPipelineRuns env (pipelineRuns h))))
         then FilteredEmptyState [] else PipelineRunEmptyState app),
      NoDataEmptyMsg = None,
      infiniteLoaderProps =
        \<lparr> isRowLoaded = (\<lambda>index. js_index
             (fst (useFilteredData env sp
                (baseFilteredRuns cf (sortedPipelineRuns env (pipelineRuns h)))))
             index \<noteq> None),
          loadMoreRows =
            (if hasNextPage h \<and> \<not> isFetchingNextPage h
             then (case getNextPage h of None \<Rightarrow> [] | Some c \<Rightarrow> [c]) else []),
          rowCount =
            (if hasNextPage h
             then length (fst (useFilteredData env sp
                    (baseFilteredRuns cf (sortedPipelineRuns env (pipelineRuns h))))) + 1
             else length (fst (useFilteredData env sp
                    (baseFilteredRuns cf (sortedPipelineRuns env (pipelineRuns h)))))) \<rparr> \<rparr>"
  using assms
  by (cases "error h")
     (simp_all add: PipelineRunsListView_def errorState_def Let_def case_prod_beta)

lemma SnapshotPipelineRunsList_table:
  assumes "tableProps (SnapshotPipelineRunsList env sp rs app ld np npp cf) = Some p"
  shows "p =
    \<lparr> unfilteredData = rs,
      data = fst (useFilteredData env sp (filteredByCustomFilter cf rs)),
      loaded = True,
      customData = usePLRVulnerabilities env
        (Some (if snd (useFilteredData env sp (filteredByCustomFilter cf rs))
               then fst (useFilteredData env sp (filteredByCustomFilter cf rs))
               else rs)),
      EmptyMsg =
        (if snd (useFilteredData env sp (filteredByCustomFilter cf rs))
         then FilteredEmptyState (handleClearFilters sp) else PipelineRunEmptyState app),
      NoDataEmptyMsg = None,
      infiniteLoaderProps =
        \<lparr> isRowLoaded = (\<lambda>index. js_index
             (fst (useFilteredData env sp (filteredByCustomFilter cf rs))) index \<noteq> None),
          loadMoreRows =
            (if hasNextPage npp \<and> \<not> isFetchingNextPage npp
             then (case np of None \<Rightarrow> [] | Some c \<Rightarrow> [c]) else []),
          rowCount =
            (if hasNextPage npp
             then length (fst (useFilteredData env sp (filteredByCustomFilter cf rs))) + 1
             else length (fst (useFilteredData env sp (filteredByCustomFilter cf rs)))) \<rparr> \<rparr>"
  using assms
  by (cases ld; cases "length rs = 0")
     (simp_all add: SnapshotPipelineRunsList_def Let_def case_prod_beta)

lemma nonempty_commit:
  "tableProps (CommitsPipelineRunTab exampleEnv [] ''app'' (exampleResult (Some twoRuns) None)) \<noteq> None"
  by (simp add: CommitsPipelineRunTab_def exampleEnv_def exampleResult_def twoRuns_def
        filterByTypeParam_def URLSearchParams_get_def Let_def)

lemma nonempty_app:
  "tableProps (PipelineRunsListView exampleEnv [] ''app'' None (exampleResult (Some twoRuns) None)) \<noteq> None"
  by (simp add: PipelineRunsListView_def exampleEnv_def exampleResult_def
        filterByTypeParam_def URLSearchParams_get_def Let_def case_prod_beta)

lemma nonempty_snapshot:
  "tableProps (SnapshotPipelineRunsList exampleEnv [] twoRuns ''app'' True (Some GetNextPage) morePages None) \<noteq> None"
  by (simp add: SnapshotPipelineRunsList_def exampleEnv_def twoRuns_def
        filterByTypeParam_def URLSearchParams_get_def Let_def case_prod_beta)

lemma nonempty_commit_fetching:
  "tableProps (CommitsPipelineRunTab exampleEnv [] ''app'' (fetchingResult (Some twoRuns))) \<noteq> None"
  by (simp add: CommitsPipelineRunTab_def exampleEnv_def fetchingResult_def twoRuns_def
        filterByTypeParam_def URLSearchParams_get_def Let_def)

lemma nonempty_snapshot_last_page:
  "tableProps (SnapshotPipelineRunsList exampleEnv [] twoRuns ''app'' True (Some GetNextPage)
     noMorePages None) \<noteq> None"
  by (simp add: SnapshotPipelineRunsList_def exampleEnv_def twoRuns_def
        filterByTypeParam_def URLSearchParams_get_def Let_def case_prod_beta)

lemma tables_with_type_filter:
  "tableProps (PipelineRunsListView exampleEnv ((''type'', ''build'') # sp) ''app'' None
     (exampleResult (Some twoRuns) None)) \<noteq> None"
  "tableProps (CommitsPipelineRunTab exampleEnv ((''type'', ''build'') # sp) ''app''
     (exampleResult (Some twoRuns) None)) \<noteq> None"
  by (simp_all add: PipelineRunsListView_def CommitsPipelineRunTab_def exampleEnv_def
        exampleResult_def Let_def case_prod_beta twoRuns_def)

lemma snapshot_tables:
  "tableProps (SnapshotPipelineRunsList exampleEnv sp twoRuns ''app'' True (Some GetNextPage)
     morePages cf) \<noteq> None"
  by (simp add: SnapshotPipelineRunsList_def Let_def case_prod_beta twoRuns_def)

section \<open>Lemmas: the concrete inputs\<close>

lemma handleClearFilters_type: "handleClearFilters [(''type'', ''release'')] = []"
  by (simp add: handleClearFilters_def filterConfigs_def URLSearchParams_delete_def)

lemma filterByTypeParam_release:
  "filterByTypeParam [(''type'', ''release'')] twoRuns = ([], True)"
  "filterByTypeParam [(''type'', ''release'')] (js_sort cmp twoRuns) = ([], True)"
  by (simp_all add: filterByTypeParam_def URLSearchParams_get_def twoRuns_def run_def
        pipelineTypeLabel_guarded_def js_sort_def)

lemma filterByTypeParam_build:
  "filterByTypeParam ((''type'', ''build'') # sp)
     [run ''b'' ''test'' ''2024-02-01T00:00:00Z'', run ''a'' ''build'' ''2024-01-01T00:00:00Z''] =
     ([run ''a'' ''build'' ''2024-01-01T00:00:00Z''], True)"
  "filterByTypeParam ((''type'', ''build'') # sp) twoRuns =
     ([run ''a'' ''build'' ''2024-01-01T00:00:00Z''], True)"
  by (simp_all add: filterByTypeParam_def URLSearchParams_get_def twoRuns_def run_def
        pipelineTypeLabel_guarded_def)

lemma twoRuns_notNamedB:
  "filter notNamedB twoRuns = [run ''a'' ''build'' ''2024-01-01T00:00:00Z'']"
  by (simp add: notNamedB_def twoRuns_def run_def)

lemma filterByTypeParam_test:
  "filterByTypeParam [(''type'', ''build'')] [run ''a'' ''build'' ''2024-01-01T00:00:00Z''] =
     ([run ''a'' ''build'' ''2024-01-01T00:00:00Z''], True)"
  "filterByTypeParam [] rs = (rs, False)"
  by (simp_all add: filterByTypeParam_def URLSearchParams_get_def run_def
        pipelineTypeLabel_guarded_def)

lemma nameParam_nonempty:
  "nameParam sp \<noteq> [] \<longleftrightarrow> (\<exists>v. URLSearchParams_get sp ''name'' = Some v \<and> v \<noteq> [])"
  by (simp add: nameParam_def split: option.splits)

section \<open>The infinite-loading adapter\<close>

text \<open>
  Claim C1. In each of the three views, whenever the view renders the table, the
  table's data is the filtered collection, the adapter's \<open>rowCount\<close> is the filtered
  collection's length plus one when \<open>hasNextPage\<close> is true and the length itself when it
  is false, and \<open>isRowLoaded i\<close> holds exactly when \<open>i\<close> is an index into the filtered
  collection.
\<close>

theorem infinite_loader_row_count:
  "(tableProps (CommitsPipelineRunTab env sp app h) = Some p \<longrightarrow>
      data p = fst (useFilteredData env sp (case pipelineRuns h of None \<Rightarrow> [] | Some rs \<Rightarrow> rs)) \<and>
      rowCount (infiniteLoaderProps p) =
        (if hasNextPage h then length (data p) + 1 else length (data p)) \<and>
      (\<forall>i. isRowLoaded (infiniteLoaderProps p) i \<longleftrightarrow> 0 \<le> i \<and> i < int (length (data p)))) \<and>
   (tableProps (PipelineRunsListView env sp app cf h') = Some q \<longrightarrow>
      data q = fst (useFilteredData env sp
                 (baseFilteredRuns cf (sortedPipelineRuns env (pipelineRuns h')))) \<and>
      rowCount (infiniteLoaderProps q) =
        (if hasNextPage h' then length (data q) + 1 else length (data q)) \<and>
      (\<forall>i. isRowLoaded (infiniteLoaderProps q) i \<longleftrightarrow> 0 \<le> i \<and> i < int (length (data q)))) \<and>
   (tableProps (SnapshotPipelineRunsList env sp rs app ld np npp cf') = Some r \<longrightarrow>
      data r = fst (useFilteredData env sp (filteredByCustomFilter cf' rs)) \<and>
      rowCount (infiniteLoaderProps r) =
        (if hasNextPage npp then length (data r) + 1 else length (data r)) \<and>
      (\<forall>i. isRowLoaded (infiniteLoaderProps r) i \<longleftrightarrow> 0 \<le> i \<and> i < int (length (data r))))"
proof (intro conjI impI)
  assume "tableProps (CommitsPipelineRunTab env sp app h) = Some p"
  from CommitsPipelineRunTab_table [OF this]
  show "data p = fst (useFilteredData env sp (case pipelineRuns h of None \<Rightarrow> [] | Some rs \<Rightarrow> rs))"
    and "rowCount (infiniteLoaderProps p) =
        (if hasNextPage h then length (data p) + 1 else length (data p))"
    and "\<forall>i. isRowLoaded (infiniteLoaderProps p) i \<longleftrightarrow> 0 \<le> i \<and> i < int (length (data p))"
    by (simp_all add: js_index_def)
next
  assume "tableProps (PipelineRunsListView env sp app cf h') = Some q"
  from PipelineRunsListView_table [OF this]
  show "data q = fst (useFilteredData env sp
                 (baseFilteredRuns cf (sortedPipelineRuns env (pipelineRuns h'))))"
    and "rowCount (infiniteLoaderProps q) =
        (if hasNextPage h' then length (data q) + 1 else length (data q))"
    and "\<forall>i. isRowLoaded (infiniteLoaderProps q) i \<longleftrightarrow> 0 \<le> i \<and> i < int (length (data q))"
    by (simp_all add: js_index_def)
next
  assume "tableProps (SnapshotPipelineRunsList env sp rs app ld np npp cf') = Some r"
  from SnapshotPipelineRunsList_table [OF this]
  show "data r = fst (useFilteredData env sp (filteredByCustomFilter cf' rs))"
    and "rowCount (infiniteLoaderProps r) =
        (if hasNextPage npp then length (data r) + 1 else length (data r))"
    and "\<forall>i. isRowLoaded (infiniteLoaderProps r) i \<longleftrightarrow> 0 \<le> i \<and> i < int (length (data r))"
    by (simp_all add: js_index_def)
qed

text \<open>
  Claim C1 on two fetched records with a further page to come: three rows are reported,
  index 1 is loaded, indices 2 and -1 are not.
\<close>

theorem infinite_loader_row_count_witness:
  "tableProps (CommitsPipelineRunTab exampleEnv [] ''app'' (exampleResult (Some twoRuns) None)) \<noteq> None \<and>
   rowCount (infiniteLoaderProps (the (tableProps
     (CommitsPipelineRunTab exampleEnv [] ''app'' (exampleResult (Some twoRuns) None))))) = 3 \<and>
   isRowLoaded (infiniteLoaderProps (the (tableProps
     (CommitsPipelineRunTab exampleEnv [] ''app'' (exampleResult (Some twoRuns) None))))) 1 \<and>
   \<not> isRowLoaded (infiniteLoaderProps (the (tableProps
     (CommitsPipelineRunTab exampleEnv [] ''app'' (exampleResult (Some twoRuns) None))))) 2 \<and>
   tableProps (PipelineRunsListView exampleEnv [] ''app'' None (exampleResult (Some twoRuns) None)) \<noteq> None \<and>
   rowCount (infiniteLoaderProps (the (tableProps
     (PipelineRunsListView exampleEnv [] ''app'' None (exampleResult (Some twoRuns) None))))) = 3 \<and>
   \<not> isRowLoaded (infiniteLoaderProps (the (tableProps
     (PipelineRunsListView exampleEnv [] ''app'' None (exampleResult (Some twoRuns) None))))) (- 1) \<and>
   tableProps (SnapshotPipelineRunsList exampleEnv [] twoRuns ''app'' True (Some GetNextPage) morePages None) \<noteq> None \<and>
   rowCount (infiniteLoaderProps (the (tableProps
     (SnapshotPipelineRunsList exampleEnv [] twoRuns ''app'' True (Some GetNextPage) morePages None)))) = 3 \<and>
   isRowLoaded (infiniteLoaderProps (the (tableProps
     (SnapshotPipelineRunsList exampleEnv [] twoRuns ''app'' True (Some GetNextPage) morePages None)))) 0"
proof -
  let ?h = "exampleResult (Some twoRuns) None"
  let ?c = "the (tableProps (CommitsPipelineRunTab exampleEnv [] ''app'' ?h))"
  let ?a = "the (tableProps (PipelineRunsListView exampleEnv [] ''app'' None ?h))"
  let ?s = "the (tableProps (SnapshotPipelineRunsList exampleEnv [] twoRuns ''app'' True
               (Some GetNextPage) morePages None))"
  have c: "tableProps (CommitsPipelineRunTab exampleEnv [] ''app'' ?h) = Some ?c"
    using nonempty_commit by simp
  have a: "tableProps (PipelineRunsListView exampleEnv [] ''app'' None ?h) = Some ?a"
    using nonempty_app by simp
  have s: "tableProps (SnapshotPipelineRunsList exampleEnv [] twoRuns ''app'' True
             (Some GetNextPage) morePages None) = Some ?s"
    using nonempty_snapshot by simp
  have len: "length (js_sort (compareByStartTime lc) twoRuns) = 2" for lc
    by (simp add: js_sort_def twoRuns_def)
  note infinite_loader_row_count [where env = exampleEnv and sp = "[]" and app = "''app''" and h = ?h and p = ?c
      and cf = None and h' = ?h and q = ?a and rs = twoRuns and ld = True
      and np = "Some GetNextPage" and npp = morePages and cf' = None and r = ?s]
  from this c a s show ?thesis
    apply (simp add: nonempty_commit nonempty_app nonempty_snapshot)
    apply (simp add: exampleEnv_def exampleResult_def morePages_def filterByTypeParam_def
        URLSearchParams_get_def filteredByCustomFilter_def baseFilteredRuns_def
        sortedPipelineRuns_def len)
    apply (simp add: twoRuns_def)
    done
qed

text \<open>
  Claim C2. In each of the three views \<open>loadMoreRows\<close> calls the next-page trigger only
  when \<open>hasNextPage\<close> is true and \<open>isFetchingNextPage\<close> is false: a trace that is not empty
  implies both, under every other combination of the flags the trace is empty, and when
  both hold the trace is the single call of the trigger (when the hook supplies one).
\<close>

theorem loadMoreRows_next_page_guard:
  "(tableProps (CommitsPipelineRunTab env sp app h) = Some p \<longrightarrow>
      (loadMoreRows (infiniteLoaderProps p) \<noteq> [] \<longrightarrow> hasNextPage h \<and> \<not> isFetchingNextPage h) \<and>
      (\<not> (hasNextPage h \<and> \<not> isFetchingNextPage h) \<longrightarrow> loadMoreRows (infiniteLoaderProps p) = []) \<and>
      (hasNextPage h \<and> \<not> isFetchingNextPage h \<longrightarrow>
         loadMoreRows (infiniteLoaderProps p) = (case getNextPage h of None \<Rightarrow> [] | Some c \<Rightarrow> [c]))) \<and>
   (tableProps (PipelineRunsListView env sp app cf h') = Some q \<longrightarrow>
      (loadMoreRows (infiniteLoaderProps q) \<noteq> [] \<longrightarrow> hasNextPage h' \<and> \<not> isFetchingNextPage h') \<and>
      (\<not> (hasNextPage h' \<and> \<not> isFetchingNextPage h') \<longrightarrow> loadMoreRows (infiniteLoaderProps q) = []) \<and>
      (hasNextPage h' \<and> \<not> isFetchingNextPage h' \<longrightarrow>
         loadMoreRows (infiniteLoaderProps q) = (case getNextPage h' of None \<Rightarrow> [] | Some c \<Rightarrow> [c]))) \<and>
   (tableProps (SnapshotPipelineRunsList env sp rs app ld np npp cf') = Some r \<longrightarrow>
      (loadMoreRows (infiniteLoaderProps r) \<noteq> [] \<longrightarrow> hasNextPage npp \<and> \<not> isFetchingNextPage npp) \<and>
      (\<not> (hasNextPage npp \<and> \<not> isFetchingNextPage npp) \<longrightarrow> loadMoreRows (infiniteLoaderProps r) = []) \<and>
      (hasNextPage npp \<and> \<not> isFetchingNextPage npp \<longrightarrow>
         loadMoreRows (infiniteLoaderProps r) = (case np of None \<Rightarrow> [] | Some c \<Rightarrow> [c])))"
proof (intro conjI impI)
  assume t: "tableProps (CommitsPipelineRunTab env sp app h) = Some p"
  have eq: "loadMoreRows (infiniteLoaderProps p) =
      (if hasNextPage h \<and> \<not> isFetchingNextPage h
       then (case getNextPage h of None \<Rightarrow> [] | Some c \<Rightarrow> [c]) else [])"
    by (subst CommitsPipelineRunTab_table [OF t]) simp
  { assume "loadMoreRows (infiniteLoaderProps p) \<noteq> []"
    with eq show "hasNextPage h" and "\<not> isFetchingNextPage h" by (auto split: if_splits) }
  { assume "\<not> (hasNextPage h \<and> \<not> isFetchingNextPage h)"
    with eq show "loadMoreRows (infiniteLoaderProps p) = []" by simp }
  { assume "hasNextPage h \<and> \<not> isFetchingNextPage h"
    with eq show "loadMoreRows (infiniteLoaderProps p) =
        (case getNextPage h of None \<Rightarrow> [] | Some c \<Rightarrow> [c])" by simp }
next
  assume t: "tableProps (PipelineRunsListView env sp app cf h') = Some q"
  have eq: "loadMoreRows (infiniteLoaderProps q) =
      (if hasNextPage h' \<and> \<not> isFetchingNextPage h'
       then (case getNextPage h' of None \<Rightarrow> [] | Some c \<Rightarrow> [c]) else [])"
    by (subst PipelineRunsListView_table [OF t]) simp
  { assume "loadMoreRows (infiniteLoaderProps q) \<noteq> []"
    with eq show "hasNextPage h'" and "\<not> isFetchingNextPage h'" by (auto split: if_splits) }
  { assume "\<not> (hasNextPage h' \<and> \<not> isFetchingNextPage h')"
    with eq show "loadMoreRows (infiniteLoaderProps q) = []" by simp }
  { assume "hasNextPage h' \<and> \<not> isFetchingNextPage h'"
    with eq show "loadMoreRows (infiniteLoaderProps q) =
        (case getNextPage h' of None \<Rightarrow> [] | Some c \<Rightarrow> [c])" by simp }
next
  assume t: "tableProps (SnapshotPipelineRunsList env sp rs app ld np npp cf') = Some r"
  have eq: "loadMoreRows (infiniteLoaderProps r) =
      (if hasNextPage npp \<and> \<not> isFetchingNextPage npp
       then (case np of None \<Rightarrow> [] | Some c \<Rightarrow> [c]) else [])"
    by (subst SnapshotPipelineRunsList_table [OF t]) simp
  { assume "loadMoreRows (infiniteLoaderProps r) \<noteq> []"
    with eq show "hasNextPage npp" and "\<not> isFetchingNextPage npp" by (auto split: if_splits) }
  { assume "\<not> (hasNextPage npp \<and> \<not> isFetchingNextPage npp)"
    with eq show "loadMoreRows (infiniteLoaderProps r) = []" by simp }
  { assume "hasNextPage npp \<and> \<not> isFetchingNextPage npp"
    with eq show "loadMoreRows (infiniteLoaderProps r) =
        (case np of None \<Rightarrow> [] | Some c \<Rightarrow> [c])" by simp }
qed

text \<open>
  Claim C2 on concrete flags: with a further page and no fetch under way the trigger is
  called once; while a fetch is under way, or on the last page, it is not called.
\<close>

theorem loadMoreRows_next_page_guard_witness:
  "loadMoreRows (infiniteLoaderProps (the (tableProps
     (CommitsPipelineRunTab exampleEnv [] ''app'' (exampleResult (Some twoRuns) None))))) = [GetNextPage] \<and>
   loadMoreRows (infiniteLoaderProps (the (tableProps
     (CommitsPipelineRunTab exampleEnv [] ''app'' (fetchingResult (Some twoRuns)))))) = [] \<and>
   loadMoreRows (infiniteLoaderProps (the (tableProps
     (PipelineRunsListView exampleEnv [] ''app'' None (exampleResult (Some twoRuns) None))))) = [GetNextPage] \<and>
   loadMoreRows (infiniteLoaderProps (the (tableProps
     (SnapshotPipelineRunsList exampleEnv [] twoRuns ''app'' True (Some GetNextPage) morePages None)))) = [GetNextPage] \<and>
   loadMoreRows (infiniteLoaderProps (the (tableProps
     (SnapshotPipelineRunsList exampleEnv [] twoRuns ''app'' True (Some GetNextPage) noMorePages None)))) = []"
proof -
  let ?h = "exampleResult (Some twoRuns) None"
  let ?f = "fetchingResult (Some twoRuns)"
  let ?c = "the (tableProps (CommitsPipelineRunTab exampleEnv [] ''app'' ?h))"
  let ?cf = "the (tableProps (CommitsPipelineRunTab exampleEnv [] ''app'' ?f))"
  let ?a = "the (tableProps (PipelineRunsListView exampleEnv [] ''app'' None ?h))"
  let ?s = "the (tableProps (SnapshotPipelineRunsList exampleEnv [] twoRuns ''app'' True
               (Some GetNextPage) morePages None))"
  let ?sl = "the (tableProps (SnapshotPipelineRunsList exampleEnv [] twoRuns ''app'' True
               (Some GetNextPage) noMorePages None))"
  have c: "tableProps (CommitsPipelineRunTab exampleEnv [] ''app'' ?h) = Some ?c"
    using nonempty_commit by simp
  have cf: "tableProps (CommitsPipelineRunTab exampleEnv [] ''app'' ?f) = Some ?cf"
    using nonempty_commit_fetching by simp
  have a: "tableProps (PipelineRunsListView exampleEnv [] ''app'' None ?h) = Some ?a"
    using nonempty_app by simp
  have s: "tableProps (SnapshotPipelineRunsList exampleEnv [] twoRuns ''app'' True
             (Some GetNextPage) morePages None) = Some ?s"
    using nonempty_snapshot by simp
  have sl: "tableProps (SnapshotPipelineRunsList exampleEnv [] twoRuns ''app'' True
             (Some GetNextPage) noMorePages None) = Some ?sl"
    using nonempty_snapshot_last_page by simp
  note first = loadMoreRows_next_page_guard [where env = exampleEnv and sp = "[]" and app = "''app''" and h = ?h and p = ?c
      and cf = None and h' = ?h and q = ?a and rs = twoRuns and ld = True
      and np = "Some GetNextPage" and npp = morePages and cf' = None and r = ?s]
  note second = loadMoreRows_next_page_guard [where env = exampleEnv and sp = "[]" and app = "''app''" and h = ?f and p = ?cf
      and cf = None and h' = ?h and q = ?a and rs = twoRuns and ld = True
      and np = "Some GetNextPage" and npp = noMorePages and cf' = None and r = ?sl]
  from first second c cf a s sl show ?thesis
    by (simp add: exampleResult_def fetchingResult_def morePages_def noMorePages_def)
qed

section \<open>Empty and error states\<close>

text \<open>
  Claim C3 as stated fails in the application view. With the \<^verbatim>\<open>type\<close> filter active and
  a loaded, empty fetched collection, the view has no early return for the empty
  collection, passes the table \<^verbatim>\<open>FilteredEmptyState\<close> as \<^verbatim>\<open>EmptyMsg\<close> and no
  \<^verbatim>\<open>NoDataEmptyMsg\<close>, and the filtered-empty state is what is shown, not the
  "no pipeline runs" state.
\<close>

theorem empty_state_filters_counterexample:
  "displayed (PipelineRunsListView exampleEnv [(''type'', ''build'')] ''app'' None
       (exampleResult (Some []) None)) = ShowsEmptyState (FilteredEmptyState []) \<and>
   displayed (PipelineRunsListView exampleEnv [(''type'', ''build'')] ''app'' None
       (exampleResult (Some []) None)) \<noteq> ShowsEmptyState (PipelineRunEmptyState ''app'') \<and>
   NoDataEmptyMsg (the (tableProps (PipelineRunsListView exampleEnv [(''type'', ''build'')] ''app'' None
       (exampleResult (Some []) None)))) = None"
  by (simp add: PipelineRunsListView_def exampleEnv_def exampleResult_def filterByTypeParam_def
        URLSearchParams_get_def sortedPipelineRuns_def baseFilteredRuns_def js_sort_def Table_def
        Let_def)

text \<open>
  Claim C3, amended. When the fetch has loaded without an error and the fetched
  collection is empty, the commit tab and the snapshot list show the "no pipeline runs"
  state whatever the filters are; the application view shows it when no filter is
  active and the filtered-empty state when one is. When the fetched collection is not
  empty and the filtered collection is, every view shows the filtered-empty state with
  its clear-filters action when a filter is active, and the "no pipeline runs" state
  when none is (the custom filter alone removed every record).
\<close>

theorem empty_state_selection:
  "(error h = None \<and> fetchLoaded h \<and> (pipelineRuns h = None \<or> pipelineRuns h = Some []) \<longrightarrow>
      displayed (CommitsPipelineRunTab env sp app h) = ShowsEmptyState (PipelineRunEmptyState app)) \<and>
   (ld \<and> rs = [] \<longrightarrow>
      displayed (SnapshotPipelineRunsList env sp rs app ld np npp cf) =
        ShowsEmptyState (PipelineRunEmptyState app)) \<and>
   (error h = None \<and> fetchLoaded h \<and> (pipelineRuns h = None \<or> pipelineRuns h = Some []) \<and>
    useFilteredData env sp [] = ([], isFiltered) \<longrightarrow>
      displayed (PipelineRunsListView env sp app cf h) =
        ShowsEmptyState (if isFiltered then FilteredEmptyState [] else PipelineRunEmptyState app)) \<and>
   (error h = None \<and> fetchLoaded h \<and> pipelineRuns h = Some rs \<and> rs \<noteq> [] \<and>
    useFilteredData env sp rs = ([], isFiltered) \<longrightarrow>
      displayed (CommitsPipelineRunTab env sp app h) =
        ShowsEmptyState (if isFiltered then FilteredEmptyState [] else PipelineRunEmptyState app)) \<and>
   (error h = None \<and> fetchLoaded h \<and> pipelineRuns h = Some rs \<and> rs \<noteq> [] \<and>
    useFilteredData env sp (baseFilteredRuns cf (sortedPipelineRuns env (Some rs))) = ([], isFiltered) \<longrightarrow>
      displayed (PipelineRunsListView env sp app cf h) =
        ShowsEmptyState (if isFiltered then FilteredEmptyState [] else PipelineRunEmptyState app)) \<and>
   (ld \<and> rs \<noteq> [] \<and>
    useFilteredData env sp (filteredByCustomFilter cf rs) = ([], isFiltered) \<longrightarrow>
      displayed (SnapshotPipelineRunsList env sp rs app ld np npp cf) =
        ShowsEmptyState (if isFiltered then FilteredEmptyState (handleClearFilters sp)
                         else PipelineRunEmptyState app))"
proof (intro conjI impI)
  assume "error h = None \<and> fetchLoaded h \<and> (pipelineRuns h = None \<or> pipelineRuns h = Some [])"
  then show "displayed (CommitsPipelineRunTab env sp app h) = ShowsEmptyState (PipelineRunEmptyState app)"
    by (auto simp: CommitsPipelineRunTab_def Let_def case_prod_beta)
next
  assume "ld \<and> rs = []"
  then show "displayed (SnapshotPipelineRunsList env sp rs app ld np npp cf) =
        ShowsEmptyState (PipelineRunEmptyState app)"
    by (simp add: SnapshotPipelineRunsList_def Let_def case_prod_beta)
next
  assume a: "error h = None \<and> fetchLoaded h \<and> (pipelineRuns h = None \<or> pipelineRuns h = Some []) \<and>
    useFilteredData env sp [] = ([], isFiltered)"
  then have "sortedPipelineRuns env (pipelineRuns h) = []"
    by (simp add: sortedPipelineRuns_Nil_iff)
  with a show "displayed (PipelineRunsListView env sp app cf h) =
        ShowsEmptyState (if isFiltered then FilteredEmptyState [] else PipelineRunEmptyState app)"
    by (cases cf) (simp_all add: PipelineRunsListView_def baseFilteredRuns_def Table_def Let_def)
next
  assume "error h = None \<and> fetchLoaded h \<and> pipelineRuns h = Some rs \<and> rs \<noteq> [] \<and>
    useFilteredData env sp rs = ([], isFiltered)"
  then show "displayed (CommitsPipelineRunTab env sp app h) =
        ShowsEmptyState (if isFiltered then FilteredEmptyState [] else PipelineRunEmptyState app)"
    by (simp add: CommitsPipelineRunTab_def Table_def Let_def)
next
  assume a: "error h = None \<and> fetchLoaded h \<and> pipelineRuns h = Some rs \<and> rs \<noteq> [] \<and>
    useFilteredData env sp (baseFilteredRuns cf (sortedPipelineRuns env (Some rs))) = ([], isFiltered)"
  then have "sortedPipelineRuns env (Some rs) \<noteq> []"
    by (simp add: sortedPipelineRuns_Nil_iff)
  with a show "displayed (PipelineRunsListView env sp app cf h) =
        ShowsEmptyState (if isFiltered then FilteredEmptyState [] else PipelineRunEmptyState app)"
    by (simp add: PipelineRunsListView_def Table_def Let_def)
next
  assume "ld \<and> rs \<noteq> [] \<and> useFilteredData env sp (filteredByCustomFilter cf rs) = ([], isFiltered)"
  then show "displayed (SnapshotPipelineRunsList env sp rs app ld np npp cf) =
        ShowsEmptyState (if isFiltered then FilteredEmptyState (handleClearFilters sp)
                         else PipelineRunEmptyState app)"
    by (simp add: SnapshotPipelineRunsList_def Table_def Let_def)
qed

text \<open>
  Claim C3, amended, on concrete inputs: an empty collection with and without the
  \<^verbatim>\<open>type\<close> filter, two records none of which has the selected type, and two records
  all rejected by a custom filter.
\<close>

theorem empty_state_selection_witness:
  "displayed (CommitsPipelineRunTab exampleEnv [(''type'', ''build'')] ''app''
     (exampleResult (Some []) None)) = ShowsEmptyState (PipelineRunEmptyState ''app'') \<and>
   displayed (SnapshotPipelineRunsList exampleEnv [(''type'', ''build'')] [] ''app'' True
     (Some GetNextPage) morePages None) = ShowsEmptyState (PipelineRunEmptyState ''app'') \<and>
   displayed (PipelineRunsListView exampleEnv [(''type'', ''build'')] ''app'' None
     (exampleResult (Some []) None)) = ShowsEmptyState (FilteredEmptyState []) \<and>
   displayed (PipelineRunsListView exampleEnv [] ''app'' None
     (exampleResult (Some []) None)) = ShowsEmptyState (PipelineRunEmptyState ''app'') \<and>
   displayed (CommitsPipelineRunTab exampleEnv [(''type'', ''release'')] ''app''
     (exampleResult (Some twoRuns) None)) = ShowsEmptyState (FilteredEmptyState []) \<and>
   displayed (PipelineRunsListView exampleEnv [(''type'', ''release'')] ''app'' None
     (exampleResult (Some twoRuns) None)) = ShowsEmptyState (FilteredEmptyState []) \<and>
   displayed (SnapshotPipelineRunsList exampleEnv [(''type'', ''release'')] twoRuns ''app'' True
     (Some GetNextPage) morePages None) = ShowsEmptyState (FilteredEmptyState []) \<and>
   displayed (SnapshotPipelineRunsList exampleEnv [] twoRuns ''app'' True
     (Some GetNextPage) morePages (Some (\<lambda>plr. False))) =
     ShowsEmptyState (PipelineRunEmptyState ''app'')"
proof -
  have two: "twoRuns \<noteq> []" by (simp add: twoRuns_def)
  note empty_filtered =
    empty_state_selection [where env = exampleEnv and sp = "[(''type'', ''build'')]" and app = "''app''"
      and h = "exampleResult (Some []) None" and rs = "[]" and ld = True
      and np = "Some GetNextPage" and npp = morePages and cf = None and isFiltered = True]
  note empty_unfiltered =
    empty_state_selection [where env = exampleEnv and sp = "[]" and app = "''app''"
      and h = "exampleResult (Some []) None" and rs = "[]" and ld = True
      and np = "Some GetNextPage" and npp = morePages and cf = None and isFiltered = False]
  note none_match =
    empty_state_selection [where env = exampleEnv and sp = "[(''type'', ''release'')]" and app = "''app''"
      and h = "exampleResult (Some twoRuns) None" and rs = twoRuns and ld = True
      and np = "Some GetNextPage" and npp = morePages and cf = None and isFiltered = True]
  note custom_rejects =
    empty_state_selection [where env = exampleEnv and sp = "[]" and app = "''app''"
      and h = "exampleResult (Some twoRuns) None" and rs = twoRuns and ld = True
      and np = "Some GetNextPage" and npp = morePages and cf = "Some (\<lambda>plr. False)"
      and isFiltered = False]
  from empty_filtered empty_unfiltered none_match custom_rejects two show ?thesis
    by (simp add: exampleEnv_def exampleResult_def filterByTypeParam_release
          handleClearFilters_type sortedPipelineRuns_def baseFilteredRuns_def
          filteredByCustomFilter_def)
       (simp add: filterByTypeParam_def URLSearchParams_get_def)
qed

text \<open>
  Claim C4. Whenever a fetch error is present, the commit tab and the application view
  render the error state with the title "Unable to load pipeline runs", and its body is
  the mapped error's message when that is not empty and "Something went wrong" when it
  is.
\<close>

theorem error_state_title_and_body:
  "(error h = Some e \<longrightarrow>
      CommitsPipelineRunTab env sp app h =
        ErrorEmptyState (fromCode env (code e)) ''Unable to load pipeline runs''
          (if message (fromCode env (code e)) \<noteq> [] then message (fromCode env (code e))
           else ''Something went wrong'')) \<and>
   (error h = Some e \<longrightarrow>
      PipelineRunsListView env sp app cf h =
        ErrorEmptyState (fromCode env (code e)) ''Unable to load pipeline runs''
          (if message (fromCode env (code e)) \<noteq> [] then message (fromCode env (code e))
           else ''Something went wrong''))"
  by (simp add: CommitsPipelineRunTab_def PipelineRunsListView_def errorState_def
        fromCodeArgument_def Let_def case_prod_beta)

text \<open>
  Claim C4 on a code the mapper knows (the message is the body) and on one it maps to
  the empty message (the fallback is the body).
\<close>

theorem error_state_title_and_body_witness:
  "CommitsPipelineRunTab exampleEnv [] ''app'' (exampleResult None (Some \<lparr> code = Some 500 \<rparr>)) =
     ErrorEmptyState (messageOfCode (Some 500)) ''Unable to load pipeline runs''
       ''Internal Server Error'' \<and>
   PipelineRunsListView exampleEnv [] ''app'' None (exampleResult None (Some \<lparr> code = Some 418 \<rparr>)) =
     ErrorEmptyState (messageOfCode (Some 418)) ''Unable to load pipeline runs''
       ''Something went wrong''"
  using error_state_title_and_body [where env = exampleEnv and sp = "[]" and app = "''app''"
          and h = "exampleResult None (Some \<lparr> code = Some 500 \<rparr>)" and e = "\<lparr> code = Some 500 \<rparr>"]
        error_state_title_and_body [where env = exampleEnv and sp = "[]" and app = "''app''" and cf = None
          and h = "exampleResult None (Some \<lparr> code = Some 418 \<rparr>)" and e = "\<lparr> code = Some 418 \<rparr>"]
  by (simp add: exampleEnv_def exampleResult_def messageOfCode_def)

text \<open>
  Claim C5 does not hold of the code. The argument of \<^verbatim>\<open>HttpError.fromCode\<close> is
  \<^verbatim>\<open>error ? error.code : 404\<close>, evaluated where \<^verbatim>\<open>error\<close> is truthy: an error object
  without a code passes \<^verbatim>\<open>undefined\<close> to the mapper, never 404. With a mapper whose
  message for 404 is "Not Found", both views render the fallback body.
\<close>

theorem fromCode_argument_without_code:
  "fromCodeArgument (Some \<lparr> code = None \<rparr>) = None \<and>
   CommitsPipelineRunTab exampleEnv [] ''app'' (exampleResult None (Some \<lparr> code = None \<rparr>)) =
     ErrorEmptyState (messageOfCode None) ''Unable to load pipeline runs'' ''Something went wrong'' \<and>
   PipelineRunsListView exampleEnv [] ''app'' None (exampleResult None (Some \<lparr> code = None \<rparr>)) =
     ErrorEmptyState (messageOfCode None) ''Unable to load pipeline runs'' ''Something went wrong'' \<and>
   message (messageOfCode (Some 404)) = ''Not Found''"
  by (simp add: CommitsPipelineRunTab_def PipelineRunsListView_def errorState_def
        fromCodeArgument_def exampleEnv_def exampleResult_def messageOfCode_def Let_def
        case_prod_beta)

section \<open>The type facet's options\<close>

text \<open>
  Claim C6 does not hold of the commit tab and the snapshot list. On a dataset with a
  record that has no label map their \<^verbatim>\<open>getOptions\<close> throws, where the claim has the
  record contribute nothing; the application view's \<^verbatim>\<open>getOptions\<close>, which guards the
  read, returns the one option of the other record.
\<close>

theorem getOptions_without_labels:
  "CommitsPipelineRunTab_getOptions typeKey
     [run ''a'' ''build'' ''2024-01-01T00:00:00Z'', runWithoutLabels ''b''] = Inl TypeError \<and>
   SnapshotPipelineRunsList_getOptions typeKey
     [run ''a'' ''build'' ''2024-01-01T00:00:00Z'', runWithoutLabels ''b''] = Inl TypeError \<and>
   PipelineRunsListView_getOptions typeKey
     [run ''a'' ''build'' ''2024-01-01T00:00:00Z'', runWithoutLabels ''b''] =
     [\<lparr> optValue = ''build'', optLabel = ''Build'', optCount = 1 \<rparr>]"
  by (simp add: CommitsPipelineRunTab_getOptions_def SnapshotPipelineRunsList_getOptions_def
        PipelineRunsListView_getOptions_def forEach_countTypes_guarded_def toOptions_def
        pipelineTypeLabel_def pipelineTypeLabel_guarded_def countType_def Map_get_def
        run_def runWithoutLabels_def typeKey_def toUpperCase_b)

section \<open>The application view's sort\<close>

text \<open>
  Claim C7. In the application view, for every fetched collection whose records all have
  a start time, \<open>sortedPipelineRuns\<close> is the collection in descending order of
  \<^verbatim>\<open>status.startTime\<close> under the string comparison \<^verbatim>\<open>localeCompare\<close> (every
  element's start time compares not greater than that of each element before it), and it
  has the same members. The comparison is any consistent comparator, as a collation is.
\<close>

theorem sortedPipelineRuns_descending:
  assumes "consistentComparator (localeCompare env)"
    and "\<forall>r\<in>set rs. startTimeOf r \<noteq> None"
  shows "sorted_wrt (\<lambda>a b. startTimeNotAfter (localeCompare env) b a)
           (sortedPipelineRuns env (Some rs)) \<and>
         mset (sortedPipelineRuns env (Some rs)) = mset rs"
proof -
  let ?lc = "localeCompare env"
  let ?c = "sortCompare (compareByStartTime ?lc)"
  have key: "?c a b = ?lc (the (startTimeOf b)) (the (startTimeOf a))"
    if "a \<in> set rs" "b \<in> set rs" for a b
    using that assms(2) by (auto simp: sortCompare_startTime)
  have swap: "(?lc s t < 0) = (0 < ?lc t s)" for s t
    using assms(1) unfolding consistentComparator_def by blast
  have tr: "?lc s t \<le> 0 \<Longrightarrow> ?lc t u \<le> 0 \<Longrightarrow> ?lc s u \<le> 0" for s t u
    using assms(1) unfolding consistentComparator_def by blast
  have ordered: "sorted_wrt (\<lambda>a b. ?c a b \<le> 0) (js_sort (compareByStartTime ?lc) rs)"
  proof (rule sorted_js_sort)
    fix a b assume "a \<in> set rs" "b \<in> set rs" "\<not> ?c a b \<le> 0"
    then show "?c b a \<le> 0" using key swap [of "the (startTimeOf a)" "the (startTimeOf b)"] by simp
  next
    fix a b d assume "a \<in> set rs" "b \<in> set rs" "d \<in> set rs" "?c a b \<le> 0" "?c b d \<le> 0"
    then show "?c a d \<le> 0"
      using key tr [of "the (startTimeOf d)" "the (startTimeOf b)" "the (startTimeOf a)"] by simp
  qed
  have rel: "startTimeNotAfter ?lc b a" if "a \<in> set rs" "b \<in> set rs" "?c a b \<le> 0" for a b
  proof -
    from that(1,2) assms(2) obtain ta tb
      where "startTimeOf a = Some ta" "startTimeOf b = Some tb" by blast
    with that(3) show ?thesis
      by (simp add: startTimeNotAfter_def sortCompare_startTime)
  qed
  from ordered have "sorted_wrt (\<lambda>a b. startTimeNotAfter ?lc b a)
               (js_sort (compareByStartTime ?lc) rs)"
    by (rule sorted_wrt_mono_rel [rotated]) (simp add: set_js_sort rel)
  then show ?thesis
    by (simp add: sortedPipelineRuns_def mset_js_sort)
qed

text \<open>
  Claim C7 on the start times of January, March and February 2024: the order is March,
  February, January.
\<close>

theorem sortedPipelineRuns_descending_witness:
  "consistentComparator (localeCompare exampleEnv) \<and>
   list_all (\<lambda>r. startTimeOf r \<noteq> None)
     [run ''jan'' ''build'' ''2024-01-01T00:00:00Z'',
      run ''mar'' ''build'' ''2024-03-01T00:00:00Z'',
      run ''feb'' ''test'' ''2024-02-01T00:00:00Z''] \<and>
   sortedPipelineRuns exampleEnv
       (Some [run ''jan'' ''build'' ''2024-01-01T00:00:00Z'',
              run ''mar'' ''build'' ''2024-03-01T00:00:00Z'',
              run ''feb'' ''test'' ''2024-02-01T00:00:00Z'']) =
     [run ''mar'' ''build'' ''2024-03-01T00:00:00Z'',
      run ''feb'' ''test'' ''2024-02-01T00:00:00Z'',
      run ''jan'' ''build'' ''2024-01-01T00:00:00Z''] \<and>
   sorted_wrt (\<lambda>a b. startTimeNotAfter (localeCompare exampleEnv) b a)
     (sortedPipelineRuns exampleEnv
       (Some [run ''jan'' ''build'' ''2024-01-01T00:00:00Z'',
              run ''mar'' ''build'' ''2024-03-01T00:00:00Z'',
              run ''feb'' ''test'' ''2024-02-01T00:00:00Z'']))"
proof -
  let ?rs = "[run ''jan'' ''build'' ''2024-01-01T00:00:00Z'',
              run ''mar'' ''build'' ''2024-03-01T00:00:00Z'',
              run ''feb'' ''test'' ''2024-02-01T00:00:00Z'']"
  have c: "consistentComparator (localeCompare exampleEnv)"
    by (simp add: exampleEnv_def consistent_codeUnitCompare)
  have d: "\<forall>r\<in>set ?rs. startTimeOf r \<noteq> None"
    by (simp add: startTimeOf_def run_def)
  have l: "list_all (\<lambda>r. startTimeOf r \<noteq> None) ?rs"
    using d by (simp only: list_all_iff)
  from sortedPipelineRuns_descending [OF c d]
  have s: "sorted_wrt (\<lambda>a b. startTimeNotAfter (localeCompare exampleEnv) b a)
             (sortedPipelineRuns exampleEnv (Some ?rs))"
    by (rule conjunct1)
  show ?thesis using c l sortedPipelineRuns_example s by blast
qed

section \<open>What is enriched\<close>

text \<open>
  Claim C8. The application view hands \<^verbatim>\<open>usePLRVulnerabilities\<close> the filtered collection
  exactly when the URL's \<^verbatim>\<open>name\<close> parameter is not empty and the sorted, unfiltered
  collection otherwise; the commit tab hands it the filtered collection exactly when
  \<open>isFiltered\<close> is true and the fetched collection otherwise.
\<close>

theorem vulnerabilities_input_by_view:
  "(tableProps (PipelineRunsListView env sp app cf h) = Some q \<longrightarrow>
      customData q =
        usePLRVulnerabilities env
          (Some (if \<exists>v. URLSearchParams_get sp ''name'' = Some v \<and> v \<noteq> []
                 then fst (useFilteredData env sp
                        (baseFilteredRuns cf (sortedPipelineRuns env (pipelineRuns h))))
                 else sortedPipelineRuns env (pipelineRuns h)))) \<and>
   (tableProps (CommitsPipelineRunTab env sp app h') = Some p \<longrightarrow>
      customData p =
        usePLRVulnerabilities env
          (if snd (useFilteredData env sp (case pipelineRuns h' of None \<Rightarrow> [] | Some rs \<Rightarrow> rs))
           then Some (fst (useFilteredData env sp
                        (case pipelineRuns h' of None \<Rightarrow> [] | Some rs \<Rightarrow> rs)))
           else pipelineRuns h'))"
proof (intro conjI impI)
  assume "tableProps (PipelineRunsListView env sp app cf h) = Some q"
  from PipelineRunsListView_table [OF this]
  show "customData q =
        usePLRVulnerabilities env
          (Some (if \<exists>v. URLSearchParams_get sp ''name'' = Some v \<and> v \<noteq> []
                 then fst (useFilteredData env sp
                        (baseFilteredRuns cf (sortedPipelineRuns env (pipelineRuns h))))
                 else sortedPipelineRuns env (pipelineRuns h)))"
    by (simp add: nameParam_nonempty)
next
  assume "tableProps (CommitsPipelineRunTab env sp app h') = Some p"
  from CommitsPipelineRunTab_table [OF this]
  show "customData p =
        usePLRVulnerabilities env
          (if snd (useFilteredData env sp (case pipelineRuns h' of None \<Rightarrow> [] | Some rs \<Rightarrow> rs))
           then Some (fst (useFilteredData env sp
                        (case pipelineRuns h' of None \<Rightarrow> [] | Some rs \<Rightarrow> rs)))
           else pipelineRuns h')"
    by simp
qed

text \<open>
  Claim C8 with the \<^verbatim>\<open>type\<close> filter active: the application view enriches the filtered
  record when \<^verbatim>\<open>name\<close> is set and both sorted records when it is not; the commit tab
  enriches the filtered record.
\<close>

theorem vulnerabilities_input_by_view_witness:
  "customData (the (tableProps (PipelineRunsListView exampleEnv
       [(''type'', ''build''), (''name'', ''a'')] ''app'' None (exampleResult (Some twoRuns) None)))) =
     Some [run ''a'' ''build'' ''2024-01-01T00:00:00Z''] \<and>
   customData (the (tableProps (PipelineRunsListView exampleEnv
       [(''type'', ''build'')] ''app'' None (exampleResult (Some twoRuns) None)))) =
     Some [run ''b'' ''test'' ''2024-02-01T00:00:00Z'', run ''a'' ''build'' ''2024-01-01T00:00:00Z''] \<and>
   customData (the (tableProps (CommitsPipelineRunTab exampleEnv
       [(''type'', ''build'')] ''app'' (exampleResult (Some twoRuns) None)))) =
     Some [run ''a'' ''build'' ''2024-01-01T00:00:00Z'']"
proof -
  let ?h = "exampleResult (Some twoRuns) None"
  let ?named = "[(''type'', ''build''), (''name'', ''a'')]"
  let ?typed = "[(''type'', ''build'')]"
  let ?an = "the (tableProps (PipelineRunsListView exampleEnv ?named ''app'' None ?h))"
  let ?at = "the (tableProps (PipelineRunsListView exampleEnv ?typed ''app'' None ?h))"
  let ?cn = "the (tableProps (CommitsPipelineRunTab exampleEnv ?named ''app'' ?h))"
  let ?ct = "the (tableProps (CommitsPipelineRunTab exampleEnv ?typed ''app'' ?h))"
  have an: "tableProps (PipelineRunsListView exampleEnv ?named ''app'' None ?h) = Some ?an"
    and at: "tableProps (PipelineRunsListView exampleEnv ?typed ''app'' None ?h) = Some ?at"
    and cn: "tableProps (CommitsPipelineRunTab exampleEnv ?named ''app'' ?h) = Some ?cn"
    and ct: "tableProps (CommitsPipelineRunTab exampleEnv ?typed ''app'' ?h) = Some ?ct"
    using tables_with_type_filter by simp_all
  have env: "useFilteredData exampleEnv = filterByTypeParam"
    "usePLRVulnerabilities exampleEnv = (\<lambda>collection. collection)"
    by (simp_all add: exampleEnv_def)
  have h: "pipelineRuns ?h = Some twoRuns" by (simp add: exampleResult_def)
  note named = vulnerabilities_input_by_view [where env = exampleEnv and sp = ?named and app = "''app''" and cf = None
      and h = ?h and q = ?an and h' = ?h and p = ?cn]
  note typed = vulnerabilities_input_by_view [where env = exampleEnv and sp = ?typed and app = "''app''" and cf = None
      and h = ?h and q = ?at and h' = ?h and p = ?ct]
  from named typed an at cn ct show ?thesis
    by (simp add: env h sorted_twoRuns filterByTypeParam_build baseFilteredRuns_def
          URLSearchParams_get_def)
qed

text \<open>
  Claim C9. The comparator's value is \<^verbatim>\<open>undefined\<close> exactly when its second record has
  no start time (in particular when it has no status), so it is a number on a pair in
  both orders only when both records have a start time; on two records without a start
  time it is \<^verbatim>\<open>undefined\<close> in both orders, which the sort reads as a tie.
\<close>

theorem compareByStartTime_undefined:
  "(compareByStartTime lc a b = None \<longleftrightarrow> startTimeOf b = None) \<and>
   (status b = None \<longrightarrow> compareByStartTime lc a b = None) \<and>
   (((\<exists>n. compareByStartTime lc a b = Some n) \<and> (\<exists>n. compareByStartTime lc b a = Some n)) \<longleftrightarrow>
      (startTimeOf a \<noteq> None \<and> startTimeOf b \<noteq> None)) \<and>
   (startTimeOf a = None \<and> startTimeOf b = None \<longrightarrow>
      compareByStartTime lc a b = None \<and> compareByStartTime lc b a = None \<and>
      sortCompare (compareByStartTime lc) a b = 0 \<and> sortCompare (compareByStartTime lc) b a = 0)"
  by (auto simp: compareByStartTime_def startTimeOf_def sortCompare_def split: option.splits)

text \<open>
  Claim C9 on a record with a start time and records without a status.
\<close>

theorem compareByStartTime_undefined_witness:
  "compareByStartTime codeUnitCompare (run ''a'' ''build'' ''2024-01-01T00:00:00Z'')
       (runWithoutLabels ''b'') = None \<and>
   compareByStartTime codeUnitCompare (runWithoutLabels ''b'')
       (run ''a'' ''build'' ''2024-01-01T00:00:00Z'') = Some (- 1) \<and>
   compareByStartTime codeUnitCompare (runWithoutLabels ''b'') (runWithoutLabels ''c'') = None \<and>
   compareByStartTime codeUnitCompare (runWithoutLabels ''c'') (runWithoutLabels ''b'') = None \<and>
   sortCompare (compareByStartTime codeUnitCompare) (runWithoutLabels ''b'') (runWithoutLabels ''c'') = 0"
proof -
  have st: "startTimeOf (runWithoutLabels n) = None" "status (runWithoutLabels n) = None" for n
    by (simp_all add: startTimeOf_def runWithoutLabels_def)
  have num: "compareByStartTime codeUnitCompare (runWithoutLabels ''b'')
       (run ''a'' ''build'' ''2024-01-01T00:00:00Z'') = Some (- 1)"
    by (simp add: compareByStartTime_def startTimeOf_def runWithoutLabels_def run_def)
  from compareByStartTime_undefined [of codeUnitCompare "run ''a'' ''build'' ''2024-01-01T00:00:00Z''" "runWithoutLabels ''b''"]
       compareByStartTime_undefined [of codeUnitCompare "runWithoutLabels ''b''" "runWithoutLabels ''c''"]
       num
  show ?thesis by (simp add: st)
qed

text \<open>
  Claim C10. In the snapshot list, when no generic filter is active the collection
  handed to \<^verbatim>\<open>usePLRVulnerabilities\<close> is the raw \<^verbatim>\<open>snapshotPipelineRuns\<close>, not the
  collection the custom filter leaves; when one is active it is the filtered collection,
  which is computed from what the custom filter leaves and is the table's data.
\<close>

theorem snapshot_vulnerabilities_input:
  "tableProps (SnapshotPipelineRunsList env sp rs app ld np npp cf) = Some r \<longrightarrow>
     (\<not> snd (useFilteredData env sp (filteredByCustomFilter cf rs)) \<longrightarrow>
        customData r = usePLRVulnerabilities env (Some rs)) \<and>
     (snd (useFilteredData env sp (filteredByCustomFilter cf rs)) \<longrightarrow>
        customData r =
          usePLRVulnerabilities env
            (Some (fst (useFilteredData env sp (filteredByCustomFilter cf rs))))) \<and>
     data r = fst (useFilteredData env sp (filteredByCustomFilter cf rs))"
proof
  assume "tableProps (SnapshotPipelineRunsList env sp rs app ld np npp cf) = Some r"
  from SnapshotPipelineRunsList_table [OF this]
  show "(\<not> snd (useFilteredData env sp (filteredByCustomFilter cf rs)) \<longrightarrow>
        customData r = usePLRVulnerabilities env (Some rs)) \<and>
     (snd (useFilteredData env sp (filteredByCustomFilter cf rs)) \<longrightarrow>
        customData r =
          usePLRVulnerabilities env
            (Some (fst (useFilteredData env sp (filteredByCustomFilter cf rs))))) \<and>
     data r = fst (useFilteredData env sp (filteredByCustomFilter cf rs))"
    by simp
qed

text \<open>
  Claim C10 with a custom filter that rejects the record named b: with no generic filter
  the record is enriched although the table does not list it; with the \<^verbatim>\<open>type\<close> filter
  active only the filtered record is enriched.
\<close>

theorem snapshot_vulnerabilities_input_witness:
  "customData (the (tableProps (SnapshotPipelineRunsList exampleEnv [] twoRuns ''app'' True
       (Some GetNextPage) morePages (Some notNamedB)))) = Some twoRuns \<and>
   data (the (tableProps (SnapshotPipelineRunsList exampleEnv [] twoRuns ''app'' True
       (Some GetNextPage) morePages (Some notNamedB)))) =
     [run ''a'' ''build'' ''2024-01-01T00:00:00Z''] \<and>
   \<not> notNamedB (run ''b'' ''test'' ''2024-02-01T00:00:00Z'') \<and>
   run ''b'' ''test'' ''2024-02-01T00:00:00Z'' \<in> set twoRuns \<and>
   customData (the (tableProps (SnapshotPipelineRunsList exampleEnv [(''type'', ''build'')] twoRuns
       ''app'' True (Some GetNextPage) morePages (Some notNamedB)))) =
     Some [run ''a'' ''build'' ''2024-01-01T00:00:00Z'']"
proof -
  let ?plain = "the (tableProps (SnapshotPipelineRunsList exampleEnv [] twoRuns ''app'' True
       (Some GetNextPage) morePages (Some notNamedB)))"
  let ?typed = "the (tableProps (SnapshotPipelineRunsList exampleEnv [(''type'', ''build'')] twoRuns
       ''app'' True (Some GetNextPage) morePages (Some notNamedB)))"
  have plain: "tableProps (SnapshotPipelineRunsList exampleEnv [] twoRuns ''app'' True
       (Some GetNextPage) morePages (Some notNamedB)) = Some ?plain"
    and typed: "tableProps (SnapshotPipelineRunsList exampleEnv [(''type'', ''build'')] twoRuns
       ''app'' True (Some GetNextPage) morePages (Some notNamedB)) = Some ?typed"
    using snapshot_tables by simp_all
  have env: "useFilteredData exampleEnv = filterByTypeParam"
    "usePLRVulnerabilities exampleEnv = (\<lambda>collection. collection)"
    by (simp_all add: exampleEnv_def)
  have b: "\<not> notNamedB (run ''b'' ''test'' ''2024-02-01T00:00:00Z'')"
    "run ''b'' ''test'' ''2024-02-01T00:00:00Z'' \<in> set twoRuns"
    by (simp_all add: notNamedB_def run_def twoRuns_def)
  from snapshot_vulnerabilities_input [where env = exampleEnv and sp = "[]" and rs = twoRuns and app = "''app''"
          and ld = True and np = "Some GetNextPage" and npp = morePages
          and cf = "Some notNamedB" and r = ?plain]
       snapshot_vulnerabilities_input [where env = exampleEnv and sp = "[(''type'', ''build'')]" and rs = twoRuns
          and app = "''app''" and ld = True and np = "Some GetNextPage" and npp = morePages
          and cf = "Some notNamedB" and r = ?typed]
       plain typed b
  show ?thesis
    by (simp add: env filteredByCustomFilter_def twoRuns_notNamedB filterByTypeParam_test)
qed

end
